theory Spec2Isabelle
  imports Complex_Main
begin

section \<open>GENFIT material effects (trackReps/src/MaterialEffects.cc)\<close>

text \<open>
  A shallow embedding of \<^verbatim>\<open>genfit::MaterialEffects\<close>.

  Conventions of the embedding:
  \<^item> \<^verbatim>\<open>Scalar\<close> (a C++ \<^verbatim>\<open>double\<close>) is read as a real number: rounding, infinities and
    NaN are not represented. \<^verbatim>\<open>fabs\<close> is \<open>abs\<close>, \<^verbatim>\<open>log\<close> is \<open>ln\<close>, \<^verbatim>\<open>hypot(a, b)\<close> is
    \<open>sqrt (a\<^sup>2 + b\<^sup>2)\<close>, \<^verbatim>\<open>pow\<close> with a literal integer exponent is \<open>^\<close> and with any other
    exponent is \<open>powr\<close>. Where the source divides, the quotient of the model agrees with
    the source only for a non-zero divisor; the one division by zero the source relies on
    (the momentum-loss limit in vacuum, in \<^verbatim>\<open>stepper\<close>) is written out.
    \<open>ln\<close> and \<open>powr\<close> agree with \<^verbatim>\<open>log\<close> and \<^verbatim>\<open>pow\<close> for a positive argument and a positive
    base.
  \<^item> \<^verbatim>\<open>int\<close> values (the PDG code, the charge) are mathematical integers; they are only
    compared and squared.
  \<^item> A data member of the source ends in an underscore (\<^verbatim>\<open>stepSize_\<close>), which a name of the
    logic cannot; the model writes \<open>stepSize_m\<close>.
  \<^item> A pointer that may be null is an \<open>option\<close>.
  \<^item> A member function that mutates the object takes the object and returns the outcome
    together with the object as the call leaves it; a thrown exception is the outcome
    \<open>Inl\<close>, a normal return is \<open>Inr\<close>.
  \<^item> Writes to \<^verbatim>\<open>debugOut\<close> and \<^verbatim>\<open>errorOut\<close> have no effect on the object and are omitted.
\<close>

subsection \<open>Exceptions\<close>

datatype exn =
    Fatal string          \<comment> \<open>a \<^verbatim>\<open>genfit::Exception\<close> on which \<^verbatim>\<open>setFatal()\<close> was called\<close>
  | RuntimeError string   \<comment> \<open>a \<^verbatim>\<open>std::runtime_error\<close>\<close>
  | AssertionFailed string   \<comment> \<open>a failed \<^verbatim>\<open>assert\<close>: the program aborts\<close>
  | RangeError            \<comment> \<open>an iterator range outside the vector: undefined behaviour in C++\<close>

subsection \<open>Data\<close>

text \<open>
  \<^verbatim>\<open>MaterialProperties\<close> is declared outside this file; the code uses it only through
  \<^verbatim>\<open>getMaterialProperties\<close>/\<^verbatim>\<open>setMaterialProperties\<close> on its five values and through
  comparison by value.
\<close>

record MaterialProperties =
  density :: real
  Z :: real
  A :: real
  radiationLength :: real
  mEE :: real

type_synonym M7x7 = "nat \<Rightarrow> real"   \<comment> \<open>a flat array of 49 entries, row-major\<close>
type_synonym M1x7 = "nat \<Rightarrow> real"   \<comment> \<open>position 0..2, direction 3..5, q/p 6\<close>
type_synonym M1x3 = "nat \<Rightarrow> real"

record MaterialStep =
  materialProperties_m :: MaterialProperties
  stepSize_ms :: real     \<comment> \<open>the field \<^verbatim>\<open>stepSize_\<close> of a material step\<close>

record RKStep =
  matStep_m :: MaterialStep
  state7_m :: M1x7

text \<open>The fields of the \<^verbatim>\<open>MaterialEffects\<close> object that the functions below read or write.\<close>

record MaterialEffects =
  noEffects_m :: bool
  energyLossBetheBloch_m :: bool
  noiseBetheBloch_m :: bool
  noiseCoulomb_m :: bool
  energyLossBrems_m :: bool
  noiseBrems_m :: bool
  ignoreBoundariesBetweenEqualMaterials_m :: bool
  stepSize_m :: real
  dEdx_m :: real
  E_m :: real
  matDensity_m :: real
  matZ_m :: real
  matA_m :: real
  radiationLength_m :: real
  mEE_m :: real
  mscModelCode_m :: int
  materialInterface_m :: "nat option"   \<comment> \<open>the address of the material interface, or null\<close>

text \<open>The object as the constructor leaves it.\<close>

definition MaterialEffects_new :: MaterialEffects where
  "MaterialEffects_new =
     \<lparr> noEffects_m = False,
       energyLossBetheBloch_m = True, noiseBetheBloch_m = True,
       noiseCoulomb_m = True,
       energyLossBrems_m = True, noiseBrems_m = True,
       ignoreBoundariesBetweenEqualMaterials_m = True,
       stepSize_m = 0, dEdx_m = 0, E_m = 0,
       matDensity_m = 0, matZ_m = 0, matA_m = 0, radiationLength_m = 0, mEE_m = 0,
       mscModelCode_m = 0,
       materialInterface_m = None \<rparr>"

text \<open>
  Declared outside this file and taken as parameters: the particle table
  (\<^verbatim>\<open>getParticleMass\<close>, \<^verbatim>\<open>getParticleCharge\<close>) and the electron mass \<^verbatim>\<open>me_\<close>.
\<close>

record particles =
  getParticleMass :: "int \<Rightarrow> real"
  getParticleCharge :: "int \<Rightarrow> int"
  me_m :: real

subsection \<open>Configuration: \<^verbatim>\<open>init\<close> and \<^verbatim>\<open>setMscModel\<close>\<close>

text \<open>
  \<^verbatim>\<open>init\<close>: when the interface is already set, the source builds a message and a
  \<^verbatim>\<open>std::runtime_error\<close> object from it, and the block ends; there is no \<^verbatim>\<open>throw\<close>.
  The assignment that follows runs in both cases.
\<close>

definition init :: "MaterialEffects \<Rightarrow> nat option \<Rightarrow> (exn + unit) \<times> MaterialEffects" where
  "init me matIfc =
     (let err = (if materialInterface_m me \<noteq> None
                 then Some (RuntimeError ''MaterialEffects::initMaterialInterface(): Already initialized! '')
                 else None)   \<comment> \<open>constructed, never thrown\<close>
      in (Inr (), me\<lparr>materialInterface_m := matIfc\<rparr>))"

definition setMscModel :: "MaterialEffects \<Rightarrow> string \<Rightarrow> (exn + unit) \<times> MaterialEffects" where
  "setMscModel me modelName =
     (if modelName = ''GEANE'' then (Inr (), me\<lparr>mscModelCode_m := 0\<rparr>)
      else if modelName = ''Highland'' then (Inr (), me\<lparr>mscModelCode_m := 1\<rparr>)
      else (Inl (Fatal (''There is no MSC model called \"'' @ modelName @
                        ''\". Maybe it is not implemented or you misspelled the model name'')),
            me))"

subsection \<open>Energy loss\<close>

text \<open>Sequencing of calls that may throw: the first exception ends the computation.\<close>

definition bind_exn :: "exn + 'a \<Rightarrow> ('a \<Rightarrow> exn + 'b) \<Rightarrow> exn + 'b" where
  "bind_exn r f = (case r of Inl e \<Rightarrow> Inl e | Inr x \<Rightarrow> f x)"

text \<open>
  \<^verbatim>\<open>dEdxBetheBloch\<close>. The validity check compares \<open>(\<beta>\<gamma>)\<^sup>2\<close> with \<open>0.05\<^sup>2\<close>; the result is
  clamped at zero from below.
\<close>

definition betaGammaMin :: real where
  "betaGammaMin = 0.05"

definition dEdxBetheBloch ::
  "particles \<Rightarrow> MaterialEffects \<Rightarrow> real \<Rightarrow> real \<Rightarrow> real \<Rightarrow> real \<Rightarrow> int \<Rightarrow> exn + real" where
  "dEdxBetheBloch pt me betaSquare gamma gammaSquare mass charge =
     (if betaSquare * gammaSquare < betaGammaMin * betaGammaMin
      then Inl (Fatal ''MaterialEffects::dEdxBetheBloch ==> beta*gamma < 0.05, Bethe-Bloch implementation not valid anymore!'')
      else
        let result = 0.307075 * matZ_m me / matA_m me * matDensity_m me / betaSquare
                       * real_of_int charge * real_of_int charge;
            massRatio = me_m pt / mass;
            argument = gammaSquare * betaSquare * me_m pt * 10^3 * 2
                         / ((1 / 10^6 * mEE_m me)
                             * sqrt (1 + 2 * gamma * massRatio + massRatio * massRatio));
            result = result * (ln argument - betaSquare);
            result = result * (1 / 10^3);
            result = (if result < 0 then 0 else result)
        in Inr result)"

text \<open>
  \<^verbatim>\<open>dEdxBrems\<close>, in the build without \<^verbatim>\<open>BETHE\<close> (the table with Migdal corrections,
  \<open>xi = 2.51\<close>, \<open>beta = 0.99\<close>, \<open>vl = 0.00004\<close>).
\<close>

definition brems_C :: "real list" where
  "brems_C =
     [0, - 0.960613 / 10^1, 0.631029 / 10^1, - 0.142819 / 10^1,
      0.150437 / 10^2, - 0.733286 / 10^4, 0.131404 / 10^5, 0.859343 / 10^1,
      - 0.529023 / 10^1, 0.131899 / 10^1, - 0.159201 / 10^2, 0.926958 / 10^4,
      - 0.208439 / 10^5, - 0.684096 * 10^1, 0.370364 * 10^1, - 0.786752,
      0.822670 / 10^1, - 0.424710 / 10^2, 0.867980 / 10^4, - 0.200856 * 10^1,
      0.129573 * 10^1, - 0.306533, 0.343682 / 10^1, - 0.185931 / 10^2,
      0.392432 / 10^4, 0.127538 * 10^1, - 0.515705, 0.820644 / 10^1,
      - 0.641997 / 10^2, 0.245913 / 10^3, - 0.365789 / 10^5, 0.115792,
      - 0.463143 / 10^1, 0.725442 / 10^2, - 0.556266 / 10^3, 0.208049 / 10^4,
      - 0.300895 / 10^6, - 0.271082 / 10^1, 0.173949 / 10^1, - 0.452531 / 10^2,
      0.569405 / 10^3, - 0.344856 / 10^4, 0.803964 / 10^6, 0.419855 / 10^2,
      - 0.277188 / 10^2, 0.737658 / 10^3, - 0.939463 / 10^4, 0.569748 / 10^5,
      - 0.131737 / 10^6, - 0.318752 / 10^3, 0.215144 / 10^3, - 0.579787 / 10^4,
      0.737972 / 10^5, - 0.441485 / 10^6, 0.994726 / 10^8, 0.938233 / 10^5,
      - 0.651642 / 10^5, 0.177303 / 10^5, - 0.224680 / 10^6, 0.132080 / 10^7,
      - 0.288593 / 10^9, - 0.245667 / 10^3, 0.833406 / 10^4, - 0.129217 / 10^4,
      0.915099 / 10^6, - 0.247179 / 10^7, 0.147696 / 10^3, - 0.498793 / 10^4,
      0.402375 / 10^5, 0.989281 / 10^7, - 0.133378 / 10^7, - 0.737702 / 10^2,
      0.333057 / 10^2, - 0.553141 / 10^3, 0.402464 / 10^4, - 0.107977 / 10^5,
      - 0.641533 / 10^2, 0.290113 / 10^2, - 0.477641 / 10^3, 0.342008 / 10^4,
      - 0.900582 / 10^6, 0.574303 / 10^5, 0.908521 / 10^4, - 0.256900 / 10^4,
      0.239921 / 10^5, - 0.741271 / 10^7, - 0.341260 / 10^4, 0.971711 / 10^5,
      - 0.172031 / 10^6, - 0.119455 / 10^6, 0.704166 / 10^8, 0.341740 / 10^5,
      - 0.775867 / 10^6, - 0.653231 / 10^7, 0.225605 / 10^7, - 0.114860 / 10^8,
      - 0.119391 / 10^6, 0.194885 / 10^7, 0.588959 / 10^8, - 0.127589 / 10^8,
      0.608247 / 10^10]"

definition brems_xi :: real where "brems_xi = 2.51"
definition brems_beta :: real where "brems_beta = 0.99"
definition brems_vl :: real where "brems_vl = 0.00004"

text \<open>
  The inner loop over \<open>J\<close>: \<open>S += C[K] * XX * YY; XX *= X\<close>, with \<open>XX\<close> starting at 1.
  The outer loop over \<open>I\<close> runs the inner loop and then \<open>YY *= Y\<close>; it returns the sum
  and \<open>YY\<close>, which the next outer loop continues with.
\<close>

definition brems_loopJ :: "(nat \<Rightarrow> nat) \<Rightarrow> real \<Rightarrow> real \<Rightarrow> nat list \<Rightarrow> real \<Rightarrow> real" where
  "brems_loopJ K X YY Js S =
     fst (fold (\<lambda>J (S, XX). (S + brems_C ! (K J) * XX * YY, XX * X)) Js (S, 1))"

definition brems_loopI ::
  "(nat \<Rightarrow> nat \<Rightarrow> nat) \<Rightarrow> real \<Rightarrow> real \<Rightarrow> nat list \<Rightarrow> nat list \<Rightarrow> real \<times> real \<Rightarrow> real \<times> real" where
  "brems_loopI K X Y Is Js SYY =
     fold (\<lambda>I (S, YY). (brems_loopJ (K I) X YY Js S, YY * Y)) Is SYY"

definition dEdxBrems :: "particles \<Rightarrow> MaterialEffects \<Rightarrow> real \<Rightarrow> int \<Rightarrow> real" where
  "dEdxBrems pt me mom pdg =
     (if \<bar>pdg\<bar> \<noteq> 11 then 0
      else
        let BCUT = (10000::real);
            THIGH = (100::real); CHIGH = (50::real);
            \<comment> \<open>the block under \<open>if (BCUT > 0.)\<close>, which always runs\<close>
            BCUT = (if BCUT > mom then mom else BCUT);
            T = (if mom > THIGH then THIGH else mom);
            kc = (if mom > THIGH then (if BCUT \<ge> THIGH then CHIGH else BCUT) else BCUT);
            E = T + me_m pt;
            kc = (if BCUT > T then T else kc);
            X = ln (T / me_m pt);
            Y = ln (kc / (E * brems_vl));
            SYY = brems_loopI (\<lambda>I J. 6 * I + J - 6) X Y [1, 2] [1, 2, 3, 4, 5, 6] (0, 1);
            SYY = brems_loopI (\<lambda>I J. 6 * I + J - 6 + (if Y > 0 then 24 else 0)) X Y
                    [3, 4, 5, 6] [1, 2, 3, 4, 5, 6] SYY;
            S = fst SYY;
            SSYY = brems_loopI (\<lambda>I J. 5 * I + J + 55) X Y [1, 2] [1, 2, 3, 4, 5] (0, 1);
            SSYY = brems_loopI (\<lambda>I J. 5 * I + J + 55 + (if Y > 0 then 15 else 0)) X Y
                    [3, 4, 5] [1, 2, 3, 4, 5] SSYY;
            SS = fst SSYY;
            S = S + matZ_m me * SS;
            CORR = 1 / (1 + 0.805485 / 10^10 * matDensity_m me * matZ_m me * E * E
                              / (matA_m me * kc * kc));
            FAC = matZ_m me * (matZ_m me + brems_xi) * E * E / (E + me_m pt);
            FAC = (if brems_beta = 1 then FAC * (kc * CORR / T)
                   else FAC * exp (brems_beta * ln (kc * CORR / T)))
        in
          if S > 0 \<and> FAC \<le> 0 then 0     \<comment> \<open>\<open>if (FAC <= 0.) return 0.;\<close>\<close>
          else
            let dedxBrems =
                  (if S > 0 then
                     let dedxBrems = FAC * S;
                         dedxBrems =
                           (if mom \<ge> THIGH then
                              let S = (if BCUT < THIGH
                                       then (let RAT = BCUT / mom;
                                                 S = 1 - 0.5 * RAT + 2 * RAT * RAT / 9;
                                                 RAT = BCUT / T
                                             in S / (1 - 0.5 * RAT + 2 * RAT * RAT / 9))
                                       else (let RAT = BCUT / mom;
                                                 S = BCUT * (1 - 0.5 * RAT + 2 * RAT * RAT / 9);
                                                 RAT = kc / T
                                             in S / (kc * (1 - 0.5 * RAT + 2 * RAT * RAT / 9))))
                              in dedxBrems * S
                            else dedxBrems)
                     in dedxBrems * (0.60221367 * matDensity_m me / matA_m me)
                   else 0);
                dedxBrems = (if dedxBrems < 0 then 0 else dedxBrems);
                factor =
                  (if pdg = - 11 then
                     let AA = (7522100::real); A1 = (0.415::real); A3 = (0.0021::real);
                         A5 = (0.00054::real);
                         ETA = (if matZ_m me > 0 then
                                  let X = ln (AA * mom / (matZ_m me * matZ_m me))
                                  in if X > - 8 then
                                       (if X \<ge> 9 then 1
                                        else let W = A1 * X + A3 * X^3 + A5 * X^5
                                             in 0.5 + arctan W / pi)
                                     else 0
                                else 0)
                     in if ETA < 0.0001 then 1 / 10^10
                        else if ETA > 0.9999 then 1
                        else let E0 = BCUT / mom;
                                 E0 = (if E0 > 1 then 1 else E0)
                             in if E0 < 1 / 10^8 then 1
                                else ETA * (1 - (1 - E0) powr (1 / ETA)) / E0
                   else 1)
            in factor * dedxBrems)"

text \<open>\<^verbatim>\<open>dEdx\<close>: the loss rate; the two terms are added when their flags are set.\<close>

definition dEdx :: "particles \<Rightarrow> MaterialEffects \<Rightarrow> real \<Rightarrow> real \<Rightarrow> int \<Rightarrow> int \<Rightarrow> exn + real" where
  "dEdx pt me energy mass charge pdg =
     (if energy \<le> mass then Inl (Fatal ''MaterialEffects::dEdx - Energy <= mass'')
      else
        let gamma = energy / mass;
            gammaSquare = gamma * gamma;
            betaSquare = 1 - 1 / gammaSquare;
            mom = energy * sqrt betaSquare
        in bind_exn (if energyLossBetheBloch_m me
                     then bind_exn (dEdxBetheBloch pt me betaSquare gamma gammaSquare mass charge)
                            (\<lambda>r. Inr (0 + r))
                     else Inr 0)
             (\<lambda>result. Inr (if energyLossBrems_m me then result + dEdxBrems pt me mom pdg
                             else result)))"

text \<open>
  \<^verbatim>\<open>momentumLoss\<close>: the loss rate is evaluated once (\<open>linear\<close>) or four times
  (Runge-Kutta); the mean rate and the mid-step energy are stored in the object. Every
  evaluation may throw, and all of them come before the first store.
\<close>

definition momentumLoss ::
  "particles \<Rightarrow> MaterialEffects \<Rightarrow> real \<Rightarrow> real \<Rightarrow> bool \<Rightarrow> int \<Rightarrow> (exn + real) \<times> MaterialEffects" where
  "momentumLoss pt me stepSign mom linear_arg pdg =
     (let mass = getParticleMass pt pdg;
          charge = getParticleCharge pt pdg;
          E0 = sqrt (mom\<^sup>2 + mass\<^sup>2);
          step = stepSize_m me * stepSign;
          rate =
            bind_exn (dEdx pt me E0 mass charge pdg) (\<lambda>dEdx1.
              if linear_arg then Inr dEdx1
              else
                let E1 = E0 - dEdx1 * step / 2 in
                bind_exn (dEdx pt me E1 mass charge pdg) (\<lambda>dEdx2.
                  let E2 = E0 - dEdx2 * step / 2 in
                  bind_exn (dEdx pt me E2 mass charge pdg) (\<lambda>dEdx3.
                    let E3 = E0 - dEdx3 * step in
                    bind_exn (dEdx pt me E3 mass charge pdg) (\<lambda>dEdx4.
                      Inr ((dEdx1 + 2 * dEdx2 + 2 * dEdx3 + dEdx4) / 6)))))
      in case rate of
           Inl e \<Rightarrow> (Inl e, me)
         | Inr r \<Rightarrow>
             let me = me\<lparr>dEdx_m := r\<rparr>;
                 me = me\<lparr>E_m := E0 - dEdx_m me * step * 0.5\<rparr>;
                 dE = step * dEdx_m me
             in if E0 - dE \<le> mass then (Inr mom, me)
                else (Inr (mom - sqrt ((E0 - dE)\<^sup>2 - mass * mass)), me))"

subsection \<open>Noise\<close>

text \<open>
  \<^verbatim>\<open>noiseBetheBloch\<close>: the energy-loss variance \<open>sigma2E\<close> in one of three regimes, and from
  it the amount added to entry \<open>6 * 7 + 6\<close> of the noise matrix. The local values \<open>zeta\<close> and
  \<open>Emax\<close>, whose ratio \<open>kappa\<close> selects the regime, are definitions of their own.
\<close>

definition noiseBetheBloch_zeta :: "particles \<Rightarrow> MaterialEffects \<Rightarrow> real \<Rightarrow> int \<Rightarrow> real" where
  "noiseBetheBloch_zeta pt me betaSquare pdg =
     (let charge = real_of_int (getParticleCharge pt pdg)
      in 153.4 * 10^3 * charge * charge / betaSquare * matZ_m me / matA_m me
           * matDensity_m me * \<bar>stepSize_m me\<bar>)"

definition noiseBetheBloch_Emax :: "particles \<Rightarrow> real \<Rightarrow> real \<Rightarrow> real \<Rightarrow> int \<Rightarrow> real" where
  "noiseBetheBloch_Emax pt betaSquare gamma gammaSquare pdg =
     (let mass = getParticleMass pt pdg
      in 2 * 10^9 * me_m pt * betaSquare * gammaSquare
           / (1 + 2 * gamma * me_m pt / mass + (me_m pt / mass) * (me_m pt / mass)))"

definition noiseBetheBloch_sigma2E ::
  "particles \<Rightarrow> MaterialEffects \<Rightarrow> real \<Rightarrow> real \<Rightarrow> real \<Rightarrow> int \<Rightarrow> real" where
  "noiseBetheBloch_sigma2E pt me betaSquare gamma gammaSquare pdg =
     (let mass = getParticleMass pt pdg;
          zeta = noiseBetheBloch_zeta pt me betaSquare pdg;
          Emax = noiseBetheBloch_Emax pt betaSquare gamma gammaSquare pdg;
          kappa = zeta / Emax;
          sigma2E =
            (if kappa > 0.01 then zeta * Emax * (1 - betaSquare / 2)
             else
               let I = 16 * matZ_m me powr 0.9;
                   f2 = (if matZ_m me > 2 then 2 / matZ_m me else 0);
                   f1 = 1 - f2;
                   e2 = 10 * matZ_m me * matZ_m me;
                   e1 = (I / e2 powr f2) powr (1 / f1);
                   mbbgg2 = 2 * 10^9 * mass * betaSquare * gammaSquare;
                   Sigma1 = dEdx_m me * 10^9 * f1 / e1 * (ln (mbbgg2 / e1) - betaSquare)
                              / (ln (mbbgg2 / I) - betaSquare) * 0.6;
                   Sigma2 = dEdx_m me * 10^9 * f2 / e2 * (ln (mbbgg2 / e2) - betaSquare)
                              / (ln (mbbgg2 / I) - betaSquare) * 0.6;
                   Sigma3 = dEdx_m me * 10^9 * Emax / (I * (Emax + I) * ln ((Emax + I) / I)) * 0.4;
                   Nc = (Sigma1 + Sigma2 + Sigma3) * \<bar>stepSize_m me\<bar>
               in if Nc > 50 then
                    let RLAMED = - 0.422784 - betaSquare - ln (zeta / Emax);
                        RLAMAX = 0.60715 + 1.1934 * RLAMED
                                   + (0.67794 + 0.052382 * RLAMED) * exp (0.94753 + 0.74442 * RLAMED);
                        sigmaalpha =
                          (if RLAMAX \<le> 1010 then
                             1.975560
                             + 9.898841 / 10^2 * RLAMAX
                             - 2.828670 / 10^4 * RLAMAX * RLAMAX
                             + 5.345406 / 10^7 * RLAMAX ^ 3
                             - 4.942035 / 10^10 * RLAMAX ^ 4
                             + 1.729807 / 10^13 * RLAMAX ^ 5
                           else 1.871887 * 10^1 + 1.296254 / 10^2 * RLAMAX);
                        sigmaalpha = (if sigmaalpha > 54.6 then 54.6 else sigmaalpha)
                    in sigmaalpha * sigmaalpha * zeta * zeta
                  else
                    let alpha = (0.996::real);
                        Ealpha = I / (1 - (alpha * Emax / (Emax + I)));
                        meanE32 = I * (Emax + I) / Emax * (Ealpha - I)
                    in \<bar>stepSize_m me\<bar> * (Sigma1 * e1 * e1 + Sigma2 * e2 * e2 + Sigma3 * meanE32))
      in sigma2E * (1 / 10^18))"

definition noiseBetheBloch_increment ::
  "particles \<Rightarrow> MaterialEffects \<Rightarrow> real \<Rightarrow> real \<Rightarrow> real \<Rightarrow> real \<Rightarrow> int \<Rightarrow> real" where
  "noiseBetheBloch_increment pt me mom betaSquare gamma gammaSquare pdg =
     (let charge = real_of_int (getParticleCharge pt pdg)
      in charge * charge / betaSquare / mom ^ 4
           * noiseBetheBloch_sigma2E pt me betaSquare gamma gammaSquare pdg)"

definition noiseBetheBloch ::
  "particles \<Rightarrow> MaterialEffects \<Rightarrow> M7x7 \<Rightarrow> real \<Rightarrow> real \<Rightarrow> real \<Rightarrow> real \<Rightarrow> int \<Rightarrow> M7x7" where
  "noiseBetheBloch pt me noise mom betaSquare gamma gammaSquare pdg =
     noise(6 * 7 + 6 := noise (6 * 7 + 6)
                          + noiseBetheBloch_increment pt me mom betaSquare gamma gammaSquare pdg)"

text \<open>
  The path of a call through \<^verbatim>\<open>noiseBetheBloch\<close>. The locals of the Urban/Landau part are
  given as definitions of their own, each as the source computes it, so that a statement can
  say on which branch a call runs: the Vavilov-Gaussian regime (\<open>kappa > 0.01\<close>), the
  truncated Landau distribution (\<open>Nc > 50\<close>) with the width \<open>sigmaalpha\<close> from the
  polynomial (\<open>RLAMAX \<le> 1010\<close>) or from the linear formula, and the Urban model. Lemma
  \<open>sigma2E_branches\<close> below shows that \<open>noiseBetheBloch_sigma2E\<close> is composed of exactly these.
\<close>

datatype branch = Vavilov | Landau_polynomial | Landau_linear | Urban

definition noiseBetheBloch_I :: "MaterialEffects \<Rightarrow> real" where
  "noiseBetheBloch_I me = 16 * matZ_m me powr 0.9"

definition noiseBetheBloch_f2 :: "MaterialEffects \<Rightarrow> real" where
  "noiseBetheBloch_f2 me = (if matZ_m me > 2 then 2 / matZ_m me else 0)"

definition noiseBetheBloch_f1 :: "MaterialEffects \<Rightarrow> real" where
  "noiseBetheBloch_f1 me = 1 - noiseBetheBloch_f2 me"

definition noiseBetheBloch_e2 :: "MaterialEffects \<Rightarrow> real" where
  "noiseBetheBloch_e2 me = 10 * matZ_m me * matZ_m me"

definition noiseBetheBloch_e1 :: "MaterialEffects \<Rightarrow> real" where
  "noiseBetheBloch_e1 me =
     (noiseBetheBloch_I me / noiseBetheBloch_e2 me powr noiseBetheBloch_f2 me)
       powr (1 / noiseBetheBloch_f1 me)"

definition noiseBetheBloch_mbbgg2 :: "particles \<Rightarrow> real \<Rightarrow> real \<Rightarrow> int \<Rightarrow> real" where
  "noiseBetheBloch_mbbgg2 pt betaSquare gammaSquare pdg =
     2 * 10^9 * getParticleMass pt pdg * betaSquare * gammaSquare"

definition noiseBetheBloch_Sigma1 ::
  "particles \<Rightarrow> MaterialEffects \<Rightarrow> real \<Rightarrow> real \<Rightarrow> int \<Rightarrow> real" where
  "noiseBetheBloch_Sigma1 pt me betaSquare gammaSquare pdg =
     (let I = noiseBetheBloch_I me; f1 = noiseBetheBloch_f1 me; e1 = noiseBetheBloch_e1 me;
          mbbgg2 = noiseBetheBloch_mbbgg2 pt betaSquare gammaSquare pdg
      in dEdx_m me * 10^9 * f1 / e1 * (ln (mbbgg2 / e1) - betaSquare)
           / (ln (mbbgg2 / I) - betaSquare) * 0.6)"

definition noiseBetheBloch_Sigma2 ::
  "particles \<Rightarrow> MaterialEffects \<Rightarrow> real \<Rightarrow> real \<Rightarrow> int \<Rightarrow> real" where
  "noiseBetheBloch_Sigma2 pt me betaSquare gammaSquare pdg =
     (let I = noiseBetheBloch_I me; f2 = noiseBetheBloch_f2 me; e2 = noiseBetheBloch_e2 me;
          mbbgg2 = noiseBetheBloch_mbbgg2 pt betaSquare gammaSquare pdg
      in dEdx_m me * 10^9 * f2 / e2 * (ln (mbbgg2 / e2) - betaSquare)
           / (ln (mbbgg2 / I) - betaSquare) * 0.6)"

definition noiseBetheBloch_Sigma3 ::
  "particles \<Rightarrow> MaterialEffects \<Rightarrow> real \<Rightarrow> real \<Rightarrow> real \<Rightarrow> int \<Rightarrow> real" where
  "noiseBetheBloch_Sigma3 pt me betaSquare gamma gammaSquare pdg =
     (let I = noiseBetheBloch_I me;
          Emax = noiseBetheBloch_Emax pt betaSquare gamma gammaSquare pdg
      in dEdx_m me * 10^9 * Emax / (I * (Emax + I) * ln ((Emax + I) / I)) * 0.4)"

definition noiseBetheBloch_Nc ::
  "particles \<Rightarrow> MaterialEffects \<Rightarrow> real \<Rightarrow> real \<Rightarrow> real \<Rightarrow> int \<Rightarrow> real" where
  "noiseBetheBloch_Nc pt me betaSquare gamma gammaSquare pdg =
     (noiseBetheBloch_Sigma1 pt me betaSquare gammaSquare pdg
        + noiseBetheBloch_Sigma2 pt me betaSquare gammaSquare pdg
        + noiseBetheBloch_Sigma3 pt me betaSquare gamma gammaSquare pdg) * \<bar>stepSize_m me\<bar>"

definition noiseBetheBloch_RLAMED ::
  "particles \<Rightarrow> MaterialEffects \<Rightarrow> real \<Rightarrow> real \<Rightarrow> real \<Rightarrow> int \<Rightarrow> real" where
  "noiseBetheBloch_RLAMED pt me betaSquare gamma gammaSquare pdg =
     - 0.422784 - betaSquare
       - ln (noiseBetheBloch_zeta pt me betaSquare pdg
               / noiseBetheBloch_Emax pt betaSquare gamma gammaSquare pdg)"

definition noiseBetheBloch_RLAMAX :: "real \<Rightarrow> real" where
  "noiseBetheBloch_RLAMAX RLAMED =
     0.60715 + 1.1934 * RLAMED
       + (0.67794 + 0.052382 * RLAMED) * exp (0.94753 + 0.74442 * RLAMED)"

definition noiseBetheBloch_sigmaalpha :: "real \<Rightarrow> real" where
  "noiseBetheBloch_sigmaalpha RLAMAX =
     (let sigmaalpha =
            (if RLAMAX \<le> 1010 then
               1.975560
               + 9.898841 / 10^2 * RLAMAX
               - 2.828670 / 10^4 * RLAMAX * RLAMAX
               + 5.345406 / 10^7 * RLAMAX ^ 3
               - 4.942035 / 10^10 * RLAMAX ^ 4
               + 1.729807 / 10^13 * RLAMAX ^ 5
             else 1.871887 * 10^1 + 1.296254 / 10^2 * RLAMAX)
      in if sigmaalpha > 54.6 then 54.6 else sigmaalpha)"

definition noiseBetheBloch_Urban ::
  "particles \<Rightarrow> MaterialEffects \<Rightarrow> real \<Rightarrow> real \<Rightarrow> real \<Rightarrow> int \<Rightarrow> real" where
  "noiseBetheBloch_Urban pt me betaSquare gamma gammaSquare pdg =
     (let I = noiseBetheBloch_I me; e1 = noiseBetheBloch_e1 me; e2 = noiseBetheBloch_e2 me;
          Emax = noiseBetheBloch_Emax pt betaSquare gamma gammaSquare pdg;
          Sigma1 = noiseBetheBloch_Sigma1 pt me betaSquare gammaSquare pdg;
          Sigma2 = noiseBetheBloch_Sigma2 pt me betaSquare gammaSquare pdg;
          Sigma3 = noiseBetheBloch_Sigma3 pt me betaSquare gamma gammaSquare pdg;
          alpha = (0.996::real);
          Ealpha = I / (1 - (alpha * Emax / (Emax + I)));
          meanE32 = I * (Emax + I) / Emax * (Ealpha - I)
      in \<bar>stepSize_m me\<bar> * (Sigma1 * e1 * e1 + Sigma2 * e2 * e2 + Sigma3 * meanE32))"

definition noiseBetheBloch_branch ::
  "particles \<Rightarrow> MaterialEffects \<Rightarrow> real \<Rightarrow> real \<Rightarrow> real \<Rightarrow> int \<Rightarrow> branch" where
  "noiseBetheBloch_branch pt me betaSquare gamma gammaSquare pdg =
     (let kappa = noiseBetheBloch_zeta pt me betaSquare pdg
                    / noiseBetheBloch_Emax pt betaSquare gamma gammaSquare pdg
      in if kappa > 0.01 then Vavilov
         else if noiseBetheBloch_Nc pt me betaSquare gamma gammaSquare pdg > 50 then
           (if noiseBetheBloch_RLAMAX (noiseBetheBloch_RLAMED pt me betaSquare gamma gammaSquare pdg)
                 \<le> 1010
            then Landau_polynomial else Landau_linear)
         else Urban)"

text \<open>
  \<^verbatim>\<open>noiseCoulomb\<close>. The scattering variance \<open>sigma2\<close> comes from the selected model and is
  clamped at zero from below.
\<close>

definition noiseCoulomb_sigma2 :: "particles \<Rightarrow> MaterialEffects \<Rightarrow> real \<Rightarrow> real \<Rightarrow> int \<Rightarrow> real" where
  "noiseCoulomb_sigma2 pt me momSquare betaSquare pdg =
     (let charge = real_of_int (getParticleCharge pt pdg);
          step = \<bar>stepSize_m me\<bar>;
          sigma2 =
            (if mscModelCode_m me = 0 then
               225 / 10^6 * charge * charge / (betaSquare * momSquare) * step / radiationLength_m me
                 * matZ_m me / (matZ_m me + 1)
                 * ln (159 * matZ_m me powr (- 1 / 3)) / ln (287 * matZ_m me powr (- 0.5))
             else if mscModelCode_m me = 1 then
               let stepOverRadLength = step / radiationLength_m me;
                   logCor = 1 + 0.038 * ln stepOverRadLength
               in 0.0136 * 0.0136 * charge * charge / (betaSquare * momSquare)
                    * stepOverRadLength * logCor * logCor
             else 0)
      in if sigma2 > 0 then sigma2 else 0)"

text \<open>
  The matrix \<open>noiseAfter\<close>: all 49 entries are set to zero, then 36 entries are assigned
  one after the other, in the order of the source. An assignment either stores a value
  computed from \<open>sigma2\<close>, the step and the direction \<open>a\<close>, or copies an entry assigned
  before.
\<close>

definition noiseAfter :: "real \<Rightarrow> real \<Rightarrow> real \<Rightarrow> M1x3 \<Rightarrow> M7x7" where
  "noiseAfter sigma2 step step2 a =
     fold (\<lambda>(i, v) n. n(i := v n))
       [ (0 * 7 + 0, \<lambda>n.   sigma2 * step2 / 3 * (1 - a 0 * a 0)),
         (1 * 7 + 0, \<lambda>n. - sigma2 * step2 / 3 * a 0 * a 1),
         (2 * 7 + 0, \<lambda>n. - sigma2 * step2 / 3 * a 0 * a 2),
         (3 * 7 + 0, \<lambda>n.   sigma2 * step * 0.5 * (1 - a 0 * a 0)),
         (4 * 7 + 0, \<lambda>n. - sigma2 * step * 0.5 * a 0 * a 1),
         (5 * 7 + 0, \<lambda>n. - sigma2 * step * 0.5 * a 0 * a 1),
         (0 * 7 + 1, \<lambda>n. n (1 * 7 + 0)),
         (1 * 7 + 1, \<lambda>n.   sigma2 * step2 / 3 * (1 - a 1 * a 1)),
         (2 * 7 + 1, \<lambda>n. - sigma2 * step2 / 3 * a 1 * a 2),
         (3 * 7 + 1, \<lambda>n. n (4 * 7 + 0)),
         (4 * 7 + 1, \<lambda>n.   sigma2 * step * 0.5 * (1 - a 1 * a 1)),
         (5 * 7 + 1, \<lambda>n. - sigma2 * step * 0.5 * a 1 * a 2),
         (0 * 7 + 2, \<lambda>n. n (2 * 7 + 0)),
         (1 * 7 + 2, \<lambda>n. n (2 * 7 + 1)),
         (2 * 7 + 2, \<lambda>n.   sigma2 * step2 / 3 * (1 - a 2 * a 2)),
         (3 * 7 + 2, \<lambda>n. n (5 * 7 + 0)),
         (4 * 7 + 2, \<lambda>n. n (5 * 7 + 1)),
         (5 * 7 + 2, \<lambda>n.   sigma2 * step * 0.5 * (1 - a 2 * a 2)),
         (0 * 7 + 3, \<lambda>n. n (3 * 7 + 0)),
         (1 * 7 + 3, \<lambda>n. n (3 * 7 + 1)),
         (2 * 7 + 3, \<lambda>n. n (3 * 7 + 2)),
         (3 * 7 + 3, \<lambda>n.   sigma2 * (1 - a 0 * a 0)),
         (4 * 7 + 3, \<lambda>n. - sigma2 * a 0 * a 1),
         (5 * 7 + 3, \<lambda>n. - sigma2 * a 0 * a 2),
         (0 * 7 + 4, \<lambda>n. n (4 * 7 + 0)),
         (1 * 7 + 4, \<lambda>n. n (4 * 7 + 1)),
         (2 * 7 + 4, \<lambda>n. n (4 * 7 + 2)),
         (3 * 7 + 4, \<lambda>n. n (4 * 7 + 3)),
         (4 * 7 + 4, \<lambda>n.   sigma2 * (1 - a 1 * a 1)),
         (5 * 7 + 4, \<lambda>n. - sigma2 * a 1 * a 2),
         (0 * 7 + 5, \<lambda>n. n (5 * 7 + 0)),
         (1 * 7 + 5, \<lambda>n. n (5 * 7 + 1)),
         (2 * 7 + 5, \<lambda>n. n (5 * 7 + 2)),
         (3 * 7 + 5, \<lambda>n. n (5 * 7 + 3)),
         (4 * 7 + 5, \<lambda>n. n (5 * 7 + 4)),
         (5 * 7 + 5, \<lambda>n.   sigma2 * (1 - a 2 * a 2)) ]
       (\<lambda>i. 0)"

text \<open>
  The assertion on the model code aborts the program when it fails (in a build with
  assertions; the constructor and \<open>setMscModel\<close> only ever store 0 or 1). The final loop
  adds \<open>noiseAfter\<close> to the noise matrix entry by entry.
\<close>

definition noiseCoulomb ::
  "particles \<Rightarrow> MaterialEffects \<Rightarrow> M7x7 \<Rightarrow> M1x3 \<Rightarrow> real \<Rightarrow> real \<Rightarrow> int \<Rightarrow> exn + M7x7" where
  "noiseCoulomb pt me noise direction momSquare betaSquare pdg =
     (if \<not> (mscModelCode_m me = 0 \<or> mscModelCode_m me = 1)
      then Inl (AssertionFailed ''mscModelCode_ == 0 || mscModelCode_ == 1'')
      else
        let step = \<bar>stepSize_m me\<bar>;
            step2 = step * step;
            sigma2 = noiseCoulomb_sigma2 pt me momSquare betaSquare pdg;
            after = noiseAfter sigma2 step step2 direction
        in Inr (\<lambda>i. if i < 7 * 7 then noise i + after i else noise i))"

text \<open>\<^verbatim>\<open>noiseBrems\<close>: electrons and positrons only.\<close>

definition noiseBrems :: "particles \<Rightarrow> MaterialEffects \<Rightarrow> M7x7 \<Rightarrow> real \<Rightarrow> real \<Rightarrow> int \<Rightarrow> M7x7" where
  "noiseBrems pt me noise momSquare betaSquare pdg =
     (if \<bar>pdg\<bar> \<noteq> 11 then noise
      else
        let charge = real_of_int (getParticleCharge pt pdg);
            minusXOverLn2 = - 1.442695 * \<bar>stepSize_m me\<bar> / radiationLength_m me;
            sigma2E = 1.44 * (3 powr minusXOverLn2 - 4 powr minusXOverLn2) * momSquare;
            sigma2E = max sigma2E 0
        in noise(6 * 7 + 6 := noise (6 * 7 + 6)
                                + charge * charge / betaSquare / momSquare ^ 2 * sigma2E))"

subsection \<open>The segment-effects entry point: \<^verbatim>\<open>effects\<close>\<close>

text \<open>
  The loop state is the object, the momentum loss accumulated so far and the noise matrix
  behind the pointer \<open>noise\<close> (\<open>None\<close> for a null pointer). \<open>effects_step\<close> is one pass
  through the loop body for the step \<open>s\<close>; \<open>effects_loop\<close> runs the body over the steps
  in order and stops at the first exception.
\<close>

type_synonym effects_state = "MaterialEffects \<times> real \<times> M7x7 option"

definition effects_step ::
  "particles \<Rightarrow> real \<Rightarrow> int \<Rightarrow> RKStep \<Rightarrow> effects_state \<Rightarrow> (exn + unit) \<times> effects_state" where
  "effects_step pt mom pdg s st =
     (case st of (me, momLoss, noise) \<Rightarrow>
        let mass = getParticleMass pt pdg;
            realPath = stepSize_ms (matStep_m s)
        in if \<bar>realPath\<bar> < 1 / 10^8 then (Inr (), (me, momLoss, noise))   \<comment> \<open>\<open>continue\<close>\<close>
           else
             let stepSign = (if realPath < 0 then - 1 else 1);
                 realPath = \<bar>realPath\<bar>;
                 me = me\<lparr>stepSize_m := realPath\<rparr>;
                 mp = materialProperties_m (matStep_m s);
                 me = me\<lparr>matDensity_m := density mp, matZ_m := Z mp, matA_m := A mp,
                         radiationLength_m := radiationLength mp, mEE_m := mEE mp\<rparr>
             in if matZ_m me > 1 / 10^3 then
                  (case momentumLoss pt me stepSign (mom - momLoss) False pdg of
                     (Inl e, me) \<Rightarrow> (Inl e, (me, momLoss, noise))
                   | (Inr l, me) \<Rightarrow>
                       let momLoss = momLoss + l
                       in (case noise of
                             None \<Rightarrow> (Inr (), (me, momLoss, None))
                           | Some n \<Rightarrow>
                               if E_m me \<le> mass
                               then (Inl (Fatal ''MaterialEffects::effects - Energy <= mass''),
                                     (me, momLoss, Some n))
                               else
                                 let gamma = E_m me / mass;
                                     gammaSquare = gamma * gamma;
                                     betaSquare = 1 - 1 / gammaSquare;
                                     p = E_m me * sqrt betaSquare;
                                     pSquare = p * p;
                                     n = (if energyLossBetheBloch_m me \<and> noiseBetheBloch_m me
                                          then noiseBetheBloch pt me n p betaSquare gamma gammaSquare pdg
                                          else n)
                                 in (case (if noiseCoulomb_m me
                                           then noiseCoulomb pt me n (\<lambda>i. state7_m s (3 + i))
                                                  pSquare betaSquare pdg
                                           else Inr n) of
                                       Inl e \<Rightarrow> (Inl e, (me, momLoss, Some n))
                                     | Inr n \<Rightarrow>
                                         let n = (if energyLossBrems_m me \<and> noiseBrems_m me
                                                  then noiseBrems pt me n pSquare betaSquare pdg
                                                  else n)
                                         in (Inr (), (me, momLoss, Some n)))))
                else (Inr (), (me, momLoss, noise)))"

fun effects_loop ::
  "particles \<Rightarrow> real \<Rightarrow> int \<Rightarrow> RKStep list \<Rightarrow> effects_state \<Rightarrow> (exn + unit) \<times> effects_state" where
  "effects_loop pt mom pdg [] st = (Inr (), st)"
| "effects_loop pt mom pdg (s # ss) st =
     (case effects_step pt mom pdg s st of
        (Inl e, st') \<Rightarrow> (Inl e, st')
      | (Inr u, st') \<Rightarrow> effects_loop pt mom pdg ss st')"

text \<open>
  The steps from \<open>steps.begin() + materialsFXStart\<close> up to, not including,
  \<open>steps.begin() + materialsFXStop\<close>. A range that is not inside the vector is undefined
  behaviour in the source.
\<close>

definition steps_range :: "RKStep list \<Rightarrow> int \<Rightarrow> int \<Rightarrow> RKStep list option" where
  "steps_range steps materialsFXStart materialsFXStop =
     (if 0 \<le> materialsFXStart \<and> materialsFXStart \<le> materialsFXStop
         \<and> materialsFXStop \<le> int (length steps)
      then Some (take (nat (materialsFXStop - materialsFXStart)) (drop (nat materialsFXStart) steps))
      else None)"

definition effects ::
  "particles \<Rightarrow> MaterialEffects \<Rightarrow> RKStep list \<Rightarrow> int \<Rightarrow> int \<Rightarrow> real \<Rightarrow> int \<Rightarrow> M7x7 option
     \<Rightarrow> (exn + real) \<times> MaterialEffects \<times> M7x7 option" where
  "effects pt me steps materialsFXStart materialsFXStop mom pdg noise =
     (if noEffects_m me then (Inr 0, me, noise)
      else if materialInterface_m me = None
      then (Inl (RuntimeError ''MaterialEffects hasn't been initialized with a correct AbsMaterialInterface pointer!''),
            me, noise)
      else
        case steps_range steps materialsFXStart materialsFXStop of
          None \<Rightarrow> (Inl RangeError, me, noise)
        | Some ss \<Rightarrow>
            (case effects_loop pt mom pdg ss (me, 0, noise) of
               (Inl e, (me, momLoss, noise)) \<Rightarrow> (Inl e, me, noise)
             | (Inr u, (me, momLoss, noise)) \<Rightarrow>
                 if momLoss \<ge> mom
                 then (Inl (Fatal ''MaterialEffects::effects ==> momLoss >= momentum, aborting extrapolation!''),
                       me, noise)
                 else (Inr momLoss, me, noise)))"

subsection \<open>The step limiter: \<^verbatim>\<open>stepper\<close>\<close>

text \<open>
  \<^verbatim>\<open>stepper\<close> works on three collaborators that are declared outside this file. Each is
  taken as a parameter: a record of the operations the code calls, over a state type that
  is left open.
  \<^item> The material interface behind \<^verbatim>\<open>materialInterface_\<close>, with state \<open>'o\<close>. Every call is
    recorded in a log, so that "the interface was not queried" is a statement about the log.
  \<^item> \<^verbatim>\<open>StepLimits\<close>, with state \<open>'l\<close>.
  \<^item> The track representation's \<^verbatim>\<open>RKPropagate\<close>, which rewrites the state vector.
  The operations are assumed to return normally.
\<close>

datatype StepLimitType = stp_momLoss | stp_boundary | stp_other nat

text \<open>
  The value handed to \<^verbatim>\<open>setLimit\<close> for the momentum-loss limit is a quotient whose divisor
  is zero in vacuum; a \<^verbatim>\<open>double\<close> then holds an infinity or a NaN.
\<close>

datatype scalar_ext = Finite real | PosInf | NaN

record 'l StepLimits_ops =
  setLimit :: "StepLimitType \<Rightarrow> scalar_ext \<Rightarrow> 'l \<Rightarrow> 'l"
  getLowestLimitSignedVal :: "'l \<Rightarrow> real"
  getLowestLimitVal :: "'l \<Rightarrow> real"
  getStepSign :: "'l \<Rightarrow> real"

record 'o AbsMaterialInterface =
  initTrack :: "'o \<Rightarrow> real \<Rightarrow> real \<Rightarrow> real \<Rightarrow> real \<Rightarrow> real \<Rightarrow> real \<Rightarrow> 'o"
  getMaterialParameters :: "'o \<Rightarrow> MaterialProperties"
  findNextBoundary :: "'o \<Rightarrow> M1x7 \<Rightarrow> real \<Rightarrow> bool \<Rightarrow> real \<times> 'o"

datatype ifc_call = Call_initTrack | Call_getMaterialParameters | Call_findNextBoundary

text \<open>
  What \<^verbatim>\<open>stepper\<close> reads and writes through its reference arguments and through the
  material interface.
\<close>

record ('o, 'l) stepper_world =
  state7 :: M1x7
  relMomLoss :: real
  currentMaterial :: MaterialProperties
  limits :: 'l
  ifc_state :: 'o
  ifc_log :: "ifc_call list"

definition call_initTrack ::
  "'o AbsMaterialInterface \<Rightarrow> real \<Rightarrow> ('o, 'l) stepper_world \<Rightarrow> ('o, 'l) stepper_world" where
  "call_initTrack ifc sign w =
     w\<lparr>ifc_state := initTrack ifc (ifc_state w) (state7 w 0) (state7 w 1) (state7 w 2)
                    (sign * state7 w 3) (sign * state7 w 4) (sign * state7 w 5),
       ifc_log := ifc_log w @ [Call_initTrack]\<rparr>"

definition call_getMaterialParameters ::
  "'o AbsMaterialInterface \<Rightarrow> ('o, 'l) stepper_world \<Rightarrow> MaterialProperties \<times> ('o, 'l) stepper_world" where
  "call_getMaterialParameters ifc w =
     (getMaterialParameters ifc (ifc_state w),
      w\<lparr>ifc_log := ifc_log w @ [Call_getMaterialParameters]\<rparr>)"

definition call_findNextBoundary ::
  "'o AbsMaterialInterface \<Rightarrow> real \<Rightarrow> bool \<Rightarrow> ('o, 'l) stepper_world \<Rightarrow> real \<times> ('o, 'l) stepper_world" where
  "call_findNextBoundary ifc sMax varField w =
     (case findNextBoundary ifc (ifc_state w) (state7 w) sMax varField of
        (step, orc) \<Rightarrow> (step, w\<lparr>ifc_state := orc, ifc_log := ifc_log w @ [Call_findNextBoundary]\<rparr>))"

text \<open>The three assignments \<open>state7[k] += sign * minStep * state7[k + 3]\<close>.\<close>

definition make_minStep :: "real \<Rightarrow> real \<Rightarrow> M1x7 \<Rightarrow> M1x7" where
  "make_minStep sign minStep s =
     (let s = s(0 := s 0 + sign * minStep * s 3);
          s = s(1 := s 1 + sign * minStep * s 4);
          s = s(2 := s 2 + sign * minStep * s 5)
      in s)"

text \<open>
  The three constants of \<^verbatim>\<open>stepper\<close>. The message of the exception for a momentum below
  \<open>Pmin\<close> ends, in the source, with the momentum in MeV; the model keeps the fixed part.
\<close>

definition maxRelMomLoss :: real where "maxRelMomLoss = 0.01"
definition Pmin :: real where "Pmin = 4 / 10^3"
definition minStep :: real where "minStep = 1 / 10^4"

text \<open>
  The search for the next boundary: at most \<open>n\<close> more passes of the loop body (100 at the
  start). The loop state is the object (for \<^verbatim>\<open>stepSize_\<close>), the world and \<open>boundaryStep\<close>.
\<close>

fun boundary_loop ::
  "'o AbsMaterialInterface \<Rightarrow> (M1x7 \<Rightarrow> real \<Rightarrow> bool \<Rightarrow> M1x7) \<Rightarrow> 'l StepLimits_ops \<Rightarrow> real \<Rightarrow> bool
     \<Rightarrow> nat \<Rightarrow> MaterialEffects \<times> ('o, 'l) stepper_world \<times> real
     \<Rightarrow> MaterialEffects \<times> ('o, 'l) stepper_world \<times> real" where
  "boundary_loop ifc RKPropagate lops sMax varField 0 st = st"
| "boundary_loop ifc RKPropagate lops sMax varField (Suc n) (me, w, boundaryStep) =
     (case call_findNextBoundary ifc boundaryStep varField w of
        (step, w) \<Rightarrow>
          let me = me\<lparr>stepSize_m := stepSize_m me + step\<rparr>;
              boundaryStep = boundaryStep - step
          in if \<not> ignoreBoundariesBetweenEqualMaterials_m me then (me, w, boundaryStep)
             else if \<bar>stepSize_m me\<bar> \<ge> \<bar>sMax\<bar> then (me, w, boundaryStep)
             else
               let w = w\<lparr>state7 := RKPropagate (state7 w) step varField\<rparr>;
                   w = w\<lparr>state7 := make_minStep (getStepSign lops (limits w)) minStep (state7 w)\<rparr>;
                   w = call_initTrack ifc (getStepSign lops (limits w)) w
               in (case call_getMaterialParameters ifc w of
                     (materialAfter, w) \<Rightarrow>
                       if materialAfter \<noteq> currentMaterial w then (me, w, boundaryStep)
                       else boundary_loop ifc RKPropagate lops sMax varField n (me, w, boundaryStep)))"

definition stepper ::
  "particles \<Rightarrow> 'o AbsMaterialInterface \<Rightarrow> (M1x7 \<Rightarrow> real \<Rightarrow> bool \<Rightarrow> M1x7) \<Rightarrow> 'l StepLimits_ops
     \<Rightarrow> MaterialEffects \<Rightarrow> ('o, 'l) stepper_world \<Rightarrow> real \<Rightarrow> int \<Rightarrow> bool
     \<Rightarrow> (exn + unit) \<times> MaterialEffects \<times> ('o, 'l) stepper_world" where
  "stepper pt ifc RKPropagate lops me w mom pdg varField =
     (if mom < Pmin
      then (Inl (Fatal ''MaterialEffects::stepper ==> momentum too low''), me, w)
      else if noEffects_m me then (Inr (), me, w)
      else if materialInterface_m me = None
      then (Inl (RuntimeError ''MaterialEffects hasn't been initialized with a correct AbsMaterialInterface pointer!''),
            me, w)
      else if relMomLoss w > maxRelMomLoss
      then (Inr (), me, w\<lparr>limits := setLimit lops stp_momLoss (Finite 0) (limits w)\<rparr>)
      else
        let sMax = getLowestLimitSignedVal lops (limits w)
        in if \<bar>sMax\<bar> < minStep then (Inr (), me, w)
           else
             let w = w\<lparr>state7 := make_minStep (getStepSign lops (limits w)) minStep (state7 w)\<rparr>;
                 w = call_initTrack ifc (getStepSign lops (limits w)) w
             in (case call_getMaterialParameters ifc w of
                   (mp, w) \<Rightarrow>
                     let me = me\<lparr>matDensity_m := density mp, matZ_m := Z mp, matA_m := A mp,
                                 radiationLength_m := radiationLength mp, mEE_m := mEE mp\<rparr>;
                         w = w\<lparr>currentMaterial :=
                                 \<lparr>density = matDensity_m me, Z = matZ_m me, A = matA_m me,
                                  radiationLength = radiationLength_m me, mEE = mEE_m me\<rparr>\<rparr>;
                         me = me\<lparr>stepSize_m := 1\<rparr>
                     in (case (if matZ_m me > 1 / 10^3
                               then (case momentumLoss pt me (getStepSign lops (limits w)) mom True pdg of
                                       (Inl e, me) \<Rightarrow> (Inl e, me)
                                     | (Inr l, me) \<Rightarrow> (Inr (l / mom), me))
                               else (Inr 0, me)) of
                           (Inl e, me) \<Rightarrow> (Inl e, me, w)
                         | (Inr relMomLossPer_cm, me) \<Rightarrow>
                             let maxStepMomLoss =
                                   (if relMomLossPer_cm = 0
                                    then (if maxRelMomLoss - \<bar>relMomLoss w\<bar> = 0 then NaN else PosInf)
                                    else Finite \<bar>(maxRelMomLoss - \<bar>relMomLoss w\<bar>) / relMomLossPer_cm\<bar>);
                                 w = w\<lparr>limits := setLimit lops stp_momLoss maxStepMomLoss (limits w)\<rparr>;
                                 sMax = getLowestLimitSignedVal lops (limits w);
                                 me = me\<lparr>stepSize_m := getStepSign lops (limits w) * minStep\<rparr>;
                                 boundaryStep = sMax
                             in (case boundary_loop ifc RKPropagate lops sMax varField 100
                                        (me, w, boundaryStep) of
                                   (me, w, boundaryStep) \<Rightarrow>
                                     let w = w\<lparr>limits := setLimit lops stp_boundary
                                                            (Finite (stepSize_m me)) (limits w)\<rparr>;
                                         w = w\<lparr>relMomLoss := relMomLoss w
                                                 + relMomLossPer_cm * getLowestLimitVal lops (limits w)\<rparr>
                                     in (Inr (), me, w)))))"

text \<open>
  Modelled from the spec: the \<^verbatim>\<open>StepLimits\<close> class, which is declared outside this file.
  The spec describes it as a small set of named, signed candidate step lengths, of which
  the tightest (smallest magnitude) wins. Here: a step sign and the list of limits that
  were installed, the latest first; installing a limit replaces an earlier one of the same
  name. It serves as a concrete instance of the operations above.
\<close>

type_synonym StepLimits = "real \<times> (StepLimitType \<times> scalar_ext) list"

definition magnitudes :: "(StepLimitType \<times> scalar_ext) list \<Rightarrow> real list" where
  "magnitudes ls = concat (map (\<lambda>(t, v). case v of Finite x \<Rightarrow> [\<bar>x\<bar>] | PosInf \<Rightarrow> [] | NaN \<Rightarrow> []) ls)"

definition lowest_limit :: "(StepLimitType \<times> scalar_ext) list \<Rightarrow> real" where
  "lowest_limit ls = (case magnitudes ls of [] \<Rightarrow> 0 | x # xs \<Rightarrow> fold min xs x)"

definition StepLimits_model :: "StepLimits StepLimits_ops" where
  "StepLimits_model =
     \<lparr> setLimit = (\<lambda>t v (sign, ls). (sign, (t, v) # filter (\<lambda>(t', v'). t' \<noteq> t) ls)),
       getLowestLimitSignedVal = (\<lambda>(sign, ls). sign * lowest_limit ls),
       getLowestLimitVal = (\<lambda>(sign, ls). lowest_limit ls),
       getStepSign = (\<lambda>(sign, ls). sign) \<rparr>"

subsection \<open>Notions used in the statements\<close>

text \<open>
  The product \<open>\<beta>\<gamma>\<close> of a particle of the given energy and mass, with \<open>\<gamma>\<close> and \<open>\<beta>\<^sup>2\<close> as
  \<^verbatim>\<open>dEdx\<close> computes them.
\<close>

definition beta_gamma :: "real \<Rightarrow> real \<Rightarrow> real" where
  "beta_gamma energy mass =
     (let gamma = energy / mass;
          gammaSquare = gamma * gamma;
          betaSquare = 1 - 1 / gammaSquare
      in sqrt betaSquare * gamma)"

text \<open>
  The upper-left 6x6 block of a 7x7 matrix (positions and directions): its quadratic form
  and positive semi-definiteness.
\<close>

definition quad_form6 :: "M7x7 \<Rightarrow> (nat \<Rightarrow> real) \<Rightarrow> real" where
  "quad_form6 N x =
     (\<Sum>i\<leftarrow>[0, 1, 2, 3, 4, 5]. \<Sum>j\<leftarrow>[0, 1, 2, 3, 4, 5]. x i * N (i * 7 + j) * x j)"

definition block6_psd :: "M7x7 \<Rightarrow> bool" where
  "block6_psd N = (\<forall>x. 0 \<le> quad_form6 N x)"

subsection \<open>Example data\<close>

text \<open>
  A particle table with the electron, the proton and the neutron, silicon as in the
  scenario of the specification, a vacuum gap, the unit direction \<open>(2/3, 1/3, 2/3)\<close>, the
  object with a material and a step size loaded, and a material interface that reports
  silicon everywhere with no boundary in reach.
\<close>

definition particles_example :: particles where
  "particles_example =
     \<lparr> getParticleMass = (\<lambda>pdg. if \<bar>pdg\<bar> = 11 then 0.000510998910
                               else if \<bar>pdg\<bar> = 2212 then 0.938272
                               else 0.939565),
       getParticleCharge = (\<lambda>pdg. if pdg = 11 then - 1 else if pdg = - 11 then 1
                                 else if pdg = 2212 then 1 else if pdg = - 2212 then - 1
                                 else 0),
       me_m = 0.000510998910 \<rparr>"

definition silicon :: MaterialProperties where
  "silicon = \<lparr>density = 2.33, Z = 14, A = 28, radiationLength = 9.37, mEE = 173\<rparr>"

definition vacuum_gap :: MaterialProperties where
  "vacuum_gap = \<lparr>density = 0, Z = 0, A = 0, radiationLength = 0, mEE = 0\<rparr>"

definition direction_example :: M1x7 where
  "direction_example = (\<lambda>i. 0)(3 := 2 / 3, 4 := 1 / 3, 5 := 2 / 3)"

definition step_example :: "MaterialProperties \<Rightarrow> real \<Rightarrow> RKStep" where
  "step_example mp len =
     \<lparr>matStep_m = \<lparr>materialProperties_m = mp, stepSize_ms = len\<rparr>, state7_m = direction_example\<rparr>"

definition MaterialEffects_example :: MaterialEffects where
  "MaterialEffects_example = MaterialEffects_new\<lparr>materialInterface_m := Some 1\<rparr>"

definition MaterialEffects_in :: "MaterialProperties \<Rightarrow> real \<Rightarrow> MaterialEffects" where
  "MaterialEffects_in mp len =
     MaterialEffects_example\<lparr>stepSize_m := len, matDensity_m := density mp, matZ_m := Z mp,
       matA_m := A mp, radiationLength_m := radiationLength mp, mEE_m := mEE mp\<rparr>"

definition probe_vector :: "nat \<Rightarrow> real" where
  "probe_vector = (\<lambda>i. 0)(0 := 2, 1 := 1, 2 := 2, 3 := - 2, 4 := - 1, 5 := - 2)"

definition silicon_everywhere :: "unit AbsMaterialInterface" where
  "silicon_everywhere =
     \<lparr> initTrack = (\<lambda>u x y z dx dy dz. ()),
       getMaterialParameters = (\<lambda>u. silicon),
       findNextBoundary = (\<lambda>u s sMax varField. (sMax, ())) \<rparr>"

definition straight_line :: "M1x7 \<Rightarrow> real \<Rightarrow> bool \<Rightarrow> M1x7" where
  "straight_line s len varField = s(0 := s 0 + len * s 3, 1 := s 1 + len * s 4, 2 := s 2 + len * s 5)"

definition world_example :: "real \<Rightarrow> (unit, StepLimits) stepper_world" where
  "world_example rel =
     \<lparr> state7 = direction_example, relMomLoss = rel, currentMaterial = vacuum_gap,
       limits = (1, [(stp_other 0, Finite 10)]), ifc_state = (), ifc_log = [] \<rparr>"

text \<open>
  Hydrogen gas (\<open>Z = 1\<close>, for which the Urban constants are \<open>I = e1 = 16\<close> and \<open>f2 = 0\<close>), the
  object with hydrogen loaded and a given mean loss rate stored in \<open>dEdx_\<close> (in the statements
  \<open>7e-7\<close> GeV/cm for a proton with \<open>\<beta>\<gamma> = 3/4\<close> and \<open>1.7e-5\<close> GeV/cm for an electron of
  10.22 GeV), and that electron's \<open>\<gamma>\<close>, \<open>\<beta>\<^sup>2 = 1 - 1/\<gamma>\<^sup>2\<close> and momentum \<open>m \<beta>\<gamma>\<close>.
\<close>

definition hydrogen_gas :: MaterialProperties where
  "hydrogen_gas = \<lparr>density = 0.0000838, Z = 1, A = 1.008, radiationLength = 752000, mEE = 19.2\<rparr>"

definition hydrogen_with_loss :: "real \<Rightarrow> MaterialEffects" where
  "hydrogen_with_loss rate = (MaterialEffects_in hydrogen_gas 0)\<lparr>dEdx_m := rate\<rparr>"

definition electron_gamma :: real where
  "electron_gamma = 1600000001 / 80000"

definition electron_betaSquare :: real where
  "electron_betaSquare = 1 - 1 / (electron_gamma * electron_gamma)"

definition electron_mom :: real where
  "electron_mom = 0.000510998910 * 1599999999 / 80000"

section \<open>Configuration\<close>

text \<open>
  C2. A second call of \<open>init\<close> with a different interface: the claim is that the call
  raises an error and the first interface stays installed. Evaluated on the code, the
  second call returns normally and the second interface replaces the first.
\<close>

theorem init_twice_replaces_handle:
  "init (snd (init MaterialEffects_new (Some 1))) (Some 2)
     = (Inr (), MaterialEffects_new\<lparr>materialInterface_m := Some 2\<rparr>)"
  by (simp add: init_def MaterialEffects_new_def)

text \<open>
  C9. \<open>setMscModel\<close> accepts exactly the names GEANE and Highland (selecting model 0 and
  model 1); every other name throws a fatal exception and the object, in particular the
  selected model, is as it was before the call.
\<close>

theorem setMscModel_names:
  "(fst (setMscModel me modelName) = Inr () \<longleftrightarrow> modelName = ''GEANE'' \<or> modelName = ''Highland'')
   \<and> setMscModel me ''GEANE'' = (Inr (), me\<lparr>mscModelCode_m := 0\<rparr>)
   \<and> setMscModel me ''Highland'' = (Inr (), me\<lparr>mscModelCode_m := 1\<rparr>)
   \<and> (modelName \<noteq> ''GEANE'' \<and> modelName \<noteq> ''Highland'' \<longrightarrow>
        (\<exists>msg. fst (setMscModel me modelName) = Inl (Fatal msg))
        \<and> snd (setMscModel me modelName) = me)"
  by (simp add: setMscModel_def)

theorem setMscModel_names_witness:
  "fst (setMscModel (MaterialEffects_new\<lparr>mscModelCode_m := 1\<rparr>) ''Unrecognized'') \<noteq> Inr ()
   \<and> (\<exists>msg. fst (setMscModel (MaterialEffects_new\<lparr>mscModelCode_m := 1\<rparr>) ''Unrecognized'') = Inl (Fatal msg))
   \<and> mscModelCode_m (snd (setMscModel (MaterialEffects_new\<lparr>mscModelCode_m := 1\<rparr>) ''Unrecognized'')) = 1"
  using setMscModel_names [of "MaterialEffects_new\<lparr>mscModelCode_m := 1\<rparr>" "''Unrecognized''"]
  by (simp add: MaterialEffects_new_def)

section \<open>Energy loss\<close>

lemma betaSquare_pos:
  fixes g :: real
  assumes "1 < g"
  shows "0 < 1 - 1 / (g * g)"
proof -
  have "1 < g * g" using assms by (simp add: less_1_mult)
  then have "1 / (g * g) < 1" by simp
  then show ?thesis by simp
qed

lemma beta_gamma_aux:
  fixes g :: real
  assumes "1 < g"
  shows "0 \<le> sqrt (1 - 1 / (g * g)) * g"
    and "(sqrt (1 - 1 / (g * g)) * g)\<^sup>2 = (1 - 1 / (g * g)) * (g * g)"
proof -
  have b: "0 < 1 - 1 / (g * g)" using assms by (rule betaSquare_pos)
  show "0 \<le> sqrt (1 - 1 / (g * g)) * g"
  proof (rule mult_nonneg_nonneg)
    show "0 \<le> sqrt (1 - 1 / (g * g))" using b by simp
    show "0 \<le> g" using assms by simp
  qed
  have "(sqrt (1 - 1 / (g * g)) * g)\<^sup>2 = (sqrt (1 - 1 / (g * g)))\<^sup>2 * g\<^sup>2"
    by (rule power_mult_distrib)
  also have "(sqrt (1 - 1 / (g * g)))\<^sup>2 = 1 - 1 / (g * g)"
    using b by (simp only: real_sqrt_pow2 less_imp_le)
  finally show "(sqrt (1 - 1 / (g * g)) * g)\<^sup>2 = (1 - 1 / (g * g)) * (g * g)"
    by (simp only: power2_eq_square)
qed

text \<open>The check on \<open>\<beta>\<^sup>2\<gamma>\<^sup>2\<close> in \<open>dEdxBetheBloch\<close> is the check \<open>\<beta>\<gamma> < 0.05\<close>.\<close>

lemma beta_gamma_check:
  assumes "0 < mass" "mass < energy"
  shows "(1 - 1 / (energy / mass * (energy / mass))) * (energy / mass * (energy / mass))
           < betaGammaMin * betaGammaMin
         \<longleftrightarrow> beta_gamma energy mass < 0.05"
proof -
  define g where "g = energy / mass"
  have g: "1 < g" using assms by (simp add: g_def)
  define bg where "bg = sqrt (1 - 1 / (g * g)) * g"
  have bg0: "0 \<le> bg" unfolding bg_def using g by (rule beta_gamma_aux(1))
  have bg2: "bg\<^sup>2 = (1 - 1 / (g * g)) * (g * g)"
    unfolding bg_def using g by (rule beta_gamma_aux(2))
  have "bg < 0.05 \<longleftrightarrow> bg\<^sup>2 < (0.05)\<^sup>2"
  proof
    assume "bg < 0.05"
    then show "bg\<^sup>2 < (0.05)\<^sup>2" using bg0 by (intro power_strict_mono) simp_all
  next
    assume "bg\<^sup>2 < (0.05)\<^sup>2"
    then show "bg < 0.05" by (rule power2_less_imp_less) simp
  qed
  then have "(1 - 1 / (g * g)) * (g * g) < betaGammaMin * betaGammaMin \<longleftrightarrow> bg < 0.05"
    unfolding bg2 by (simp add: betaGammaMin_def power2_eq_square)
  moreover have "beta_gamma energy mass = bg"
    by (simp only: beta_gamma_def Let_def bg_def g_def)
  ultimately show ?thesis by (simp only: g_def)
qed

text \<open>
  C5. Every evaluation of \<open>dEdx\<close> with \<open>energy \<le> mass\<close> throws the fatal exception
  "Energy <= mass". For a positive mass and \<open>energy > mass\<close>: with the Bethe-Bloch term
  enabled, \<open>\<beta>\<gamma> < 0.05\<close> throws the fatal exception of \<open>dEdxBetheBloch\<close>; with \<open>\<beta>\<gamma> \<ge> 0.05\<close>
  the call returns a value. With the Bethe-Bloch term disabled, \<open>energy > mass\<close> alone
  makes the call return a value.
\<close>

theorem dEdx_errors:
  "(energy \<le> mass \<longrightarrow>
      dEdx pt me energy mass charge pdg = Inl (Fatal ''MaterialEffects::dEdx - Energy <= mass''))
   \<and> (0 < mass \<and> mass < energy \<and> energyLossBetheBloch_m me \<and> beta_gamma energy mass < 0.05 \<longrightarrow>
      dEdx pt me energy mass charge pdg
        = Inl (Fatal ''MaterialEffects::dEdxBetheBloch ==> beta*gamma < 0.05, Bethe-Bloch implementation not valid anymore!''))
   \<and> (0 < mass \<and> mass < energy \<and> 0.05 \<le> beta_gamma energy mass \<longrightarrow>
      (\<exists>r. dEdx pt me energy mass charge pdg = Inr r))
   \<and> (mass < energy \<and> \<not> energyLossBetheBloch_m me \<longrightarrow>
      (\<exists>r. dEdx pt me energy mass charge pdg = Inr r))"
proof (intro conjI impI)
  assume "energy \<le> mass"
  then show "dEdx pt me energy mass charge pdg = Inl (Fatal ''MaterialEffects::dEdx - Energy <= mass'')"
    by (simp add: dEdx_def)
next
  assume a: "0 < mass \<and> mass < energy \<and> energyLossBetheBloch_m me \<and> beta_gamma energy mass < 0.05"
  then have "(1 - 1 / (energy / mass * (energy / mass))) * (energy / mass * (energy / mass))
           < betaGammaMin * betaGammaMin"
    using beta_gamma_check[of mass energy] by simp
  then have "dEdxBetheBloch pt me (1 - 1 / (energy / mass * (energy / mass))) (energy / mass)
               (energy / mass * (energy / mass)) mass charge
        = Inl (Fatal ''MaterialEffects::dEdxBetheBloch ==> beta*gamma < 0.05, Bethe-Bloch implementation not valid anymore!'')"
    by (simp only: dEdxBetheBloch_def if_True)
  moreover have "\<not> energy \<le> mass" using a by simp
  ultimately show "dEdx pt me energy mass charge pdg
        = Inl (Fatal ''MaterialEffects::dEdxBetheBloch ==> beta*gamma < 0.05, Bethe-Bloch implementation not valid anymore!'')"
    using a by (simp only: dEdx_def Let_def bind_exn_def if_True if_False sum.case)
next
  assume a: "0 < mass \<and> mass < energy \<and> 0.05 \<le> beta_gamma energy mass"
  then have "\<not> (1 - 1 / (energy / mass * (energy / mass))) * (energy / mass * (energy / mass))
           < betaGammaMin * betaGammaMin"
    using beta_gamma_check[of mass energy] by simp
  then have "\<exists>r. dEdxBetheBloch pt me (1 - 1 / (energy / mass * (energy / mass))) (energy / mass)
               (energy / mass * (energy / mass)) mass charge = Inr r"
    by (simp only: dEdxBetheBloch_def if_False Let_def) blast
  then obtain r where "dEdxBetheBloch pt me (1 - 1 / (energy / mass * (energy / mass))) (energy / mass)
               (energy / mass * (energy / mass)) mass charge = Inr r" ..
  moreover have "\<not> energy \<le> mass" using a by simp
  ultimately show "\<exists>r. dEdx pt me energy mass charge pdg = Inr r"
    by (cases "energyLossBetheBloch_m me")
       (simp_all only: dEdx_def Let_def bind_exn_def if_True if_False sum.case, blast+)
next
  assume a: "mass < energy \<and> \<not> energyLossBetheBloch_m me"
  then have "\<not> energy \<le> mass" by simp
  then show "\<exists>r. dEdx pt me energy mass charge pdg = Inr r"
    using a by (simp only: dEdx_def Let_def bind_exn_def if_True if_False sum.case) blast
qed

theorem dEdx_errors_witness:
  "dEdx particles_example MaterialEffects_example 0.9 0.938272 1 2212
     = Inl (Fatal ''MaterialEffects::dEdx - Energy <= mass'')
   \<and> dEdx particles_example MaterialEffects_example 0.939 0.938272 1 2212
     = Inl (Fatal ''MaterialEffects::dEdxBetheBloch ==> beta*gamma < 0.05, Bethe-Bloch implementation not valid anymore!'')
   \<and> (\<exists>r. dEdx particles_example MaterialEffects_example 1.17284 0.938272 1 2212 = Inr r)
   \<and> (\<exists>r. dEdx particles_example (MaterialEffects_example\<lparr>energyLossBetheBloch_m := False\<rparr>)
              0.939 0.938272 1 2212 = Inr r)"
proof -
  have flag: "energyLossBetheBloch_m MaterialEffects_example"
    by (simp add: MaterialEffects_example_def MaterialEffects_new_def)
  have low: "beta_gamma 0.939 0.938272 < 0.05"
    using beta_gamma_check [of "0.938272" "0.939"] by (simp add: betaGammaMin_def)
  have high: "0.05 \<le> beta_gamma 1.17284 0.938272"
    using beta_gamma_check [of "0.938272" "1.17284"] by (simp add: betaGammaMin_def)
  show ?thesis
    using dEdx_errors [of "0.9" "0.938272" particles_example MaterialEffects_example 1 2212]
          dEdx_errors [of "0.939" "0.938272" particles_example MaterialEffects_example 1 2212]
          dEdx_errors [of "1.17284" "0.938272" particles_example MaterialEffects_example 1 2212]
          dEdx_errors [of "0.939" "0.938272" particles_example
                          "MaterialEffects_example\<lparr>energyLossBetheBloch_m := False\<rparr>" 1 2212]
          flag low high
    by simp
qed

text \<open>What a call of \<open>momentumLoss\<close> that returns has stored and returned.\<close>

lemma momentumLoss_returns:
  assumes "momentumLoss pt me stepSign mom lin pdg = (Inr loss, me')"
  shows "stepSize_m me' = stepSize_m me"
    and "loss = (let mass = getParticleMass pt pdg;
                     E0 = sqrt (mom\<^sup>2 + mass\<^sup>2);
                     dE = stepSize_m me * stepSign * dEdx_m me'
                 in if E0 - dE \<le> mass then mom else mom - sqrt ((E0 - dE)\<^sup>2 - mass * mass))"
  using assms
  by (auto simp: momentumLoss_def Let_def split: sum.splits if_splits)

text \<open>
  C3. For a particle of positive mass and every call of \<open>momentumLoss\<close> that returns (no
  evaluation of the loss rate throws), with \<open>E0\<close> the incoming energy and \<open>dE\<close> the energy
  loss computed from the stored mean rate: if \<open>E0 - dE \<le> mass\<close> the returned loss is the
  whole incoming momentum; otherwise the radicand \<open>(E0 - dE)\<^sup>2 - mass\<^sup>2\<close> is not negative
  and the returned loss is the incoming momentum minus its square root. In both cases the
  energy that belongs to the momentum left over is \<open>max (E0 - dE) mass\<close>, so the kinetic
  energy after the loss is not negative.
\<close>

theorem momentumLoss_saturates:
  assumes mass: "0 < getParticleMass pt pdg"
      and ret: "momentumLoss pt me stepSign mom lin pdg = (Inr loss, me')"
  shows "let mass = getParticleMass pt pdg;
             E0 = sqrt (mom\<^sup>2 + mass\<^sup>2);
             dE = stepSize_m me * stepSign * dEdx_m me'
         in (E0 - dE \<le> mass \<longrightarrow> loss = mom)
            \<and> (mass < E0 - dE \<longrightarrow>
                  0 \<le> (E0 - dE)\<^sup>2 - mass\<^sup>2
                  \<and> loss = mom - sqrt ((E0 - dE)\<^sup>2 - mass\<^sup>2))
            \<and> sqrt ((mom - loss)\<^sup>2 + mass\<^sup>2) = max (E0 - dE) mass"
proof -
  define m where "m = getParticleMass pt pdg"
  define E0 where "E0 = sqrt (mom\<^sup>2 + m\<^sup>2)"
  define dE where "dE = stepSize_m me * stepSign * dEdx_m me'"
  have l: "loss = (if E0 - dE \<le> m then mom else mom - sqrt ((E0 - dE)\<^sup>2 - m * m))"
    using momentumLoss_returns(2)[OF ret] by (simp add: Let_def m_def E0_def dE_def)
  have m0: "0 < m" using mass by (simp add: m_def)
  have a: "E0 - dE \<le> m \<longrightarrow> loss = mom" using l by simp
  have rad: "0 \<le> (E0 - dE)\<^sup>2 - m\<^sup>2" if "m < E0 - dE"
  proof -
    have "m\<^sup>2 \<le> (E0 - dE)\<^sup>2" using that m0 by (intro power_mono) simp_all
    then show ?thesis by simp
  qed
  have b: "m < E0 - dE \<longrightarrow> 0 \<le> (E0 - dE)\<^sup>2 - m\<^sup>2 \<and> loss = mom - sqrt ((E0 - dE)\<^sup>2 - m\<^sup>2)"
    using l rad by (simp add: power2_eq_square)
  have c: "sqrt ((mom - loss)\<^sup>2 + m\<^sup>2) = max (E0 - dE) m"
  proof (cases "E0 - dE \<le> m")
    case True
    then have "loss = mom" using a by simp
    then show ?thesis using True m0 by simp
  next
    case False
    then have lt: "m < E0 - dE" by simp
    then have "mom - loss = sqrt ((E0 - dE)\<^sup>2 - m\<^sup>2)" using b by simp
    then have "(mom - loss)\<^sup>2 = (E0 - dE)\<^sup>2 - m\<^sup>2" using rad[OF lt] by simp
    then have "sqrt ((mom - loss)\<^sup>2 + m\<^sup>2) = sqrt ((E0 - dE)\<^sup>2)" by simp
    also have "\<dots> = E0 - dE" using lt m0 by simp
    finally show ?thesis using lt by simp
  qed
  show ?thesis
    using a b c by (simp add: Let_def m_def E0_def dE_def)
qed

text \<open>
  A proton of momentum 0.703704 (\<open>\<beta>\<gamma> = 3/4\<close>, energy 1.17284) in silicon: the loss rate
  lies between 0.0006 and 3.4, from \<open>1 \<le> ln x \<le> x - 1\<close> for the argument of the logarithm.
  With the linear estimate, a step of 1000 saturates and a step of 0.01 does not.
\<close>

lemma proton_silicon_log:
  "1 \<le> ln (459899019 / (138400 * sqrt (8815532470270948211881 / 8803543459840000000000)))"
  "ln (459899019 / (138400 * sqrt (8815532470270948211881 / 8803543459840000000000))) \<le> 3322"
proof -
  define S :: real where "S = sqrt (8815532470270948211881 / 8803543459840000000000)"
  define X :: real where "X = 459899019 / (138400 * S)"
  have S1: "1 \<le> S" unfolding S_def by (rule real_sqrt_ge_one) simp
  have S2: "S \<le> 2" unfolding S_def by (rule real_le_lsqrt) simp_all
  have D: "0 < 138400 * S" using S1 by simp
  have "3 * (138400 * S) \<le> 459899019" using S2 by simp
  then have X3: "3 \<le> X" unfolding X_def using D by (simp only: pos_le_divide_eq)
  have "459899019 \<le> 3323 * (138400 * S)" using S1 by simp
  then have XU: "X \<le> 3323" unfolding X_def using D by (simp only: pos_divide_le_eq)
  have Xpos: "0 < X" using X3 by simp
  have "exp 1 \<le> (3::real)" by (rule exp_le)
  then have "exp 1 \<le> X" using X3 by (rule order_trans)
  then have lo: "1 \<le> ln X" using Xpos by (simp only: ln_ge_iff)
  have "ln X \<le> X - 1" using Xpos by (rule ln_le_minus_one)
  then have hi: "ln X \<le> 3322" using XU by simp
  show "1 \<le> ln (459899019 / (138400 * sqrt (8815532470270948211881 / 8803543459840000000000)))"
    using lo by (simp only: X_def S_def)
  show "ln (459899019 / (138400 * sqrt (8815532470270948211881 / 8803543459840000000000))) \<le> 3322"
    using hi by (simp only: X_def S_def)
qed

lemma dEdx_proton_silicon_case:
  "(case dEdx particles_example (MaterialEffects_in silicon len) 1.17284 0.938272 1 2212 of
      Inr r \<Rightarrow> 0.0006 \<le> r \<and> r \<le> 3.4
    | Inl e \<Rightarrow> False)"
  using proton_silicon_log
  by (simp add: dEdx_def dEdxBetheBloch_def dEdxBrems_def bind_exn_def Let_def
        betaGammaMin_def particles_example_def MaterialEffects_in_def silicon_def
        MaterialEffects_example_def MaterialEffects_new_def)

lemma dEdx_proton_silicon:
  "\<exists>r. dEdx particles_example (MaterialEffects_in silicon len) 1.17284 0.938272 1 2212 = Inr r
           \<and> 0.0006 \<le> r \<and> r \<le> 3.4"
  using dEdx_proton_silicon_case [of len]
  by (cases "dEdx particles_example (MaterialEffects_in silicon len) 1.17284 0.938272 1 2212") simp_all

lemma momentumLoss_linear:
  assumes "dEdx pt me (sqrt (mom\<^sup>2 + (getParticleMass pt pdg)\<^sup>2)) (getParticleMass pt pdg)
             (getParticleCharge pt pdg) pdg = Inr r"
  shows "\<exists>loss me'. momentumLoss pt me stepSign mom True pdg = (Inr loss, me') \<and> dEdx_m me' = r"
  using assms by (simp add: momentumLoss_def Let_def bind_exn_def)

lemma proton_energy:
  "sqrt ((0.703704::real)\<^sup>2 + (getParticleMass particles_example 2212)\<^sup>2) = 1.17284"
  by (rule real_sqrt_unique) (simp_all add: particles_example_def power2_eq_square)

lemma momentumLoss_proton_silicon:
  "\<exists>loss me'. momentumLoss particles_example (MaterialEffects_in silicon len) 1 0.703704 True 2212
                    = (Inr loss, me')
                 \<and> 0.0006 \<le> dEdx_m me' \<and> dEdx_m me' \<le> 3.4"
proof -
  obtain r where r: "dEdx particles_example (MaterialEffects_in silicon len) 1.17284 0.938272 1 2212 = Inr r"
    and b: "0.0006 \<le> r" "r \<le> 3.4"
    using dEdx_proton_silicon [of len] by blast
  have m: "getParticleMass particles_example 2212 = 0.938272"
    and c: "getParticleCharge particles_example 2212 = 1"
    by (simp_all add: particles_example_def)
  have "dEdx particles_example (MaterialEffects_in silicon len)
          (sqrt ((0.703704::real)\<^sup>2 + (getParticleMass particles_example 2212)\<^sup>2))
          (getParticleMass particles_example 2212) (getParticleCharge particles_example 2212) 2212 = Inr r"
    unfolding proton_energy unfolding m c by (rule r)
  from momentumLoss_linear [OF this, of 1]
  show ?thesis using b by blast
qed

lemma proton_energy_normal:
  "sqrt ((87963 / 125000)\<^sup>2 + (29321 / 31250)\<^sup>2) = (1.17284::real)"
  by (rule real_sqrt_unique) (simp_all add: power2_eq_square)

theorem momentumLoss_saturates_witness:
  "(\<exists>me'. momentumLoss particles_example (MaterialEffects_in silicon 1000) 1 0.703704 True 2212
             = (Inr 0.703704, me'))
   \<and> (\<exists>loss me'. momentumLoss particles_example (MaterialEffects_in silicon 0.01) 1 0.703704 True 2212
             = (Inr loss, me')
          \<and> 0 \<le> (1.17284 - 0.01 * dEdx_m me')\<^sup>2 - 0.938272\<^sup>2
          \<and> loss = 0.703704 - sqrt ((1.17284 - 0.01 * dEdx_m me')\<^sup>2 - 0.938272\<^sup>2)
          \<and> sqrt ((0.703704 - loss)\<^sup>2 + 0.938272\<^sup>2) = 1.17284 - 0.01 * dEdx_m me')"
proof -
  have m: "getParticleMass particles_example 2212 = 0.938272"
    by (simp add: particles_example_def)
  have mpos: "0 < getParticleMass particles_example 2212" by (simp add: m)
  have s: "stepSize_m (MaterialEffects_in silicon len) = len" for len
    by (simp add: MaterialEffects_in_def)
  obtain loss1 me1 where ret1:
      "momentumLoss particles_example (MaterialEffects_in silicon 1000) 1 0.703704 True 2212 = (Inr loss1, me1)"
    and r1: "0.0006 \<le> dEdx_m me1"
    using momentumLoss_proton_silicon [of 1000] by blast
  obtain loss2 me2 where ret2:
      "momentumLoss particles_example (MaterialEffects_in silicon 0.01) 1 0.703704 True 2212 = (Inr loss2, me2)"
    and r2: "dEdx_m me2 \<le> 3.4"
    using momentumLoss_proton_silicon [of "0.01"] by blast
  have "loss1 = 0.703704"
    using momentumLoss_saturates [OF mpos ret1] r1 by (simp add: Let_def m proton_energy_normal s)
  then have A: "\<exists>me'. momentumLoss particles_example (MaterialEffects_in silicon 1000) 1 0.703704 True 2212
             = (Inr 0.703704, me')"
    using ret1 by blast
  have "0 \<le> (1.17284 - 0.01 * dEdx_m me2)\<^sup>2 - 0.938272\<^sup>2
          \<and> loss2 = 0.703704 - sqrt ((1.17284 - 0.01 * dEdx_m me2)\<^sup>2 - 0.938272\<^sup>2)
          \<and> sqrt ((0.703704 - loss2)\<^sup>2 + 0.938272\<^sup>2) = 1.17284 - 0.01 * dEdx_m me2"
    using momentumLoss_saturates [OF mpos ret2] r2 by (simp add: Let_def m proton_energy_normal s)
  then show ?thesis using A ret2 by blast
qed

text \<open>
  The same proton at any energy between 1.1 and 1.17284: the loss rate is defined and lies
  between 0 and 3.4. A Runge-Kutta step of 0.01 through silicon therefore evaluates the
  rate four times without an exception and loses less than the whole momentum.
\<close>

lemma bethe_bloch_bound:
  fixes K a b :: real
  assumes "0 \<le> K" "0 < a" "0 \<le> b"
  shows "(if K * (ln a - b) * (1 / 10^3) < 0 then 0 else K * (ln a - b) * (1 / 10^3)) \<le> K * a * (1 / 10^3)"
proof -
  have "ln a \<le> a - 1" using assms(2) by (rule ln_le_minus_one)
  then have "ln a - b \<le> a" using assms(3) by simp
  then have "K * (ln a - b) \<le> K * a" using assms(1) by (rule mult_left_mono)
  then have "K * (ln a - b) * (1 / 10^3) \<le> K * a * (1 / 10^3)"
    by (rule mult_right_mono) simp
  moreover have "0 \<le> K * a * (1 / 10^3)" using assms by simp
  ultimately show ?thesis by simp
qed

lemma dEdx_hadron:
  assumes "mass < energy" "\<bar>pdg\<bar> \<noteq> 11" "energyLossBetheBloch_m me"
      and "\<not> (1 - 1 / (energy / mass * (energy / mass))) * (energy / mass * (energy / mass))
              < betaGammaMin * betaGammaMin"
  shows "dEdx pt me energy mass charge pdg =
           Inr (let betaSquare = 1 - 1 / (energy / mass * (energy / mass));
                    K = 0.307075 * matZ_m me / matA_m me * matDensity_m me / betaSquare
                          * real_of_int charge * real_of_int charge;
                    a = energy / mass * (energy / mass) * betaSquare * me_m pt * 10^3 * 2
                          / ((1 / 10^6 * mEE_m me)
                             * sqrt (1 + 2 * (energy / mass) * (me_m pt / mass)
                                       + me_m pt / mass * (me_m pt / mass)))
                in if K * (ln a - betaSquare) * (1 / 10^3) < 0 then 0
                   else K * (ln a - betaSquare) * (1 / 10^3))"
  using assms
  by (simp add: dEdx_def dEdxBetheBloch_def dEdxBrems_def bind_exn_def Let_def)

lemma dEdx_proton_silicon_range:
  assumes e: "1.1 \<le> energy" "energy \<le> 1.17284"
  shows "\<exists>r. dEdx particles_example (MaterialEffects_in silicon len) energy 0.938272 1 2212 = Inr r
             \<and> 0 \<le> r \<and> r \<le> 3.4"
proof -
  define g where "g = energy / 0.938272"
  define bS where "bS = 1 - 1 / (g * g)"
  define S where "S = sqrt (1 + 2 * g * (me_m particles_example / 0.938272)
                        + me_m particles_example / 0.938272 * (me_m particles_example / 0.938272))"
  define K where "K = 0.307075 * matZ_m (MaterialEffects_in silicon len)
                        / matA_m (MaterialEffects_in silicon len)
                        * matDensity_m (MaterialEffects_in silicon len) / bS
                        * real_of_int 1 * real_of_int 1"
  define a where "a = g * g * bS * me_m particles_example * 10^3 * 2
                        / ((1 / 10^6 * mEE_m (MaterialEffects_in silicon len)) * S)"
  have g1: "1 < g" and g_lo: "1.17 \<le> g" and g_hi: "g \<le> 1.25"
    using e by (simp_all add: g_def)
  have g2_lo: "1 < g * g" using g1 by (simp add: less_1_mult)
  have g2_hi: "g * g \<le> 1.5625"
  proof -
    have "g * g \<le> 1.25 * 1.25" using g_hi g1 by (intro mult_mono) simp_all
    then show ?thesis by simp
  qed
  have bpos: "0 < bS" unfolding bS_def using g1 by (rule betaSquare_pos)
  have gne: "g \<noteq> 0" using g1 by simp
  have bg: "bS * (g * g) = g * g - 1" using gne by (simp add: bS_def field_simps)
  have chk: "\<not> bS * (g * g) < betaGammaMin * betaGammaMin"
    unfolding bg using g_lo g2_lo
  proof -
    have "1.17 * 1.17 \<le> g * g" using g_lo by (intro mult_mono) simp_all
    then show "\<not> g * g - 1 < betaGammaMin * betaGammaMin" by (simp add: betaGammaMin_def)
  qed
  have S1: "1 \<le> S" unfolding S_def using g1
    by (intro real_sqrt_ge_one) (simp add: particles_example_def)
  have Kval: "K = 0.35774237500 / bS"
    by (simp add: K_def MaterialEffects_in_def silicon_def)
  have K0: "0 \<le> K" unfolding Kval using bpos by simp
  have aval: "a = g * g * bS * (1.02199782 / (0.000173 * S))"
    by (simp add: a_def MaterialEffects_in_def silicon_def particles_example_def)
  have apos: "0 < a" unfolding aval using g2_lo bpos S1 by simp
  have "K * a * (1 / 10^3) = 0.35774237500 * (g * g) * (1.02199782 / (0.000173 * S)) / 10^3"
    unfolding Kval aval using bpos by simp
  also have "\<dots> \<le> 0.35774237500 * 1.5625 * (1.02199782 / (0.000173 * 1)) / 10^3"
  proof -
    have "1.02199782 / (0.000173 * S) \<le> 1.02199782 / (0.000173 * 1)"
      using S1 by (intro divide_left_mono mult_left_mono) simp_all
    moreover have "0 \<le> 1.02199782 / (0.000173 * S)" using S1 by simp
    ultimately have "(g * g) * (1.02199782 / (0.000173 * S)) \<le> 1.5625 * (1.02199782 / (0.000173 * 1))"
      using g2_hi by (intro mult_mono) simp_all
    then show ?thesis by simp
  qed
  also have "\<dots> \<le> 3.4" by simp
  finally have up: "K * a * (1 / 10^3) \<le> 3.4" .
  define r where "r = (if K * (ln a - bS) * (1 / 10^3) < 0 then 0 else K * (ln a - bS) * (1 / 10^3))"
  have "r \<le> K * a * (1 / 10^3)"
    unfolding r_def using K0 apos bpos by (intro bethe_bloch_bound) simp_all
  then have r_hi: "r \<le> 3.4" using up by simp
  have r_lo: "0 \<le> r" by (simp add: r_def)
  have m: "(0.938272::real) < energy" using e by simp
  have flag: "energyLossBetheBloch_m (MaterialEffects_in silicon len)"
    by (simp add: MaterialEffects_in_def MaterialEffects_example_def MaterialEffects_new_def)
  have "dEdx particles_example (MaterialEffects_in silicon len) energy 0.938272 1 2212 = Inr r"
    unfolding r_def K_def a_def S_def bS_def g_def
    using dEdx_hadron [OF m _ flag, of 2212 particles_example 1] chk
    by (simp only: Let_def g_def bS_def) simp
  then show ?thesis using r_lo r_hi by blast
qed

lemma momentumLoss_rk4:
  fixes pt me stepSign mom pdg
  defines "mass \<equiv> getParticleMass pt pdg"
      and "charge \<equiv> getParticleCharge pt pdg"
      and "E0 \<equiv> sqrt (mom\<^sup>2 + (getParticleMass pt pdg)\<^sup>2)"
      and "step \<equiv> stepSize_m me * stepSign"
  assumes "dEdx pt me E0 mass charge pdg = Inr k1"
      and "dEdx pt me (E0 - k1 * step / 2) mass charge pdg = Inr k2"
      and "dEdx pt me (E0 - k2 * step / 2) mass charge pdg = Inr k3"
      and "dEdx pt me (E0 - k3 * step) mass charge pdg = Inr k4"
  shows "\<exists>loss me'. momentumLoss pt me stepSign mom False pdg = (Inr loss, me')
           \<and> dEdx_m me' = (k1 + 2 * k2 + 2 * k3 + k4) / 6
           \<and> E_m me' = E0 - (k1 + 2 * k2 + 2 * k3 + k4) / 6 * step * 0.5"
  using assms(5-8) unfolding mass_def charge_def E0_def step_def
  by (simp add: momentumLoss_def Let_def bind_exn_def)

lemma momentumLoss_rk4_proton_silicon:
  "\<exists>loss me'. momentumLoss particles_example (MaterialEffects_in silicon 0.01) 1 0.703704 False 2212
                  = (Inr loss, me') \<and> loss < 0.703704"
proof -
  let ?me = "MaterialEffects_in silicon 0.01"
  have m: "getParticleMass particles_example 2212 = 0.938272"
    and c: "getParticleCharge particles_example 2212 = 1"
    by (simp_all add: particles_example_def)
  have s: "stepSize_m ?me = 0.01" by (simp add: MaterialEffects_in_def)
  have E0: "sqrt ((0.703704::real)\<^sup>2 + 0.938272\<^sup>2) = 1.17284"
    using proton_energy by (simp only: m)
  obtain k1 where k1: "dEdx particles_example ?me 1.17284 0.938272 1 2212 = Inr k1"
    and b1: "0 \<le> k1" "k1 \<le> 3.4"
    using dEdx_proton_silicon_range [of "1.17284" "0.01"] by auto
  obtain k2 where k2: "dEdx particles_example ?me (1.17284 - k1 * (0.01 * 1) / 2) 0.938272 1 2212 = Inr k2"
    and b2: "0 \<le> k2" "k2 \<le> 3.4"
    using dEdx_proton_silicon_range [of "1.17284 - k1 * (0.01 * 1) / 2" "0.01"] b1 by auto
  obtain k3 where k3: "dEdx particles_example ?me (1.17284 - k2 * (0.01 * 1) / 2) 0.938272 1 2212 = Inr k3"
    and b3: "0 \<le> k3" "k3 \<le> 3.4"
    using dEdx_proton_silicon_range [of "1.17284 - k2 * (0.01 * 1) / 2" "0.01"] b2 by auto
  obtain k4 where k4: "dEdx particles_example ?me (1.17284 - k3 * (0.01 * 1)) 0.938272 1 2212 = Inr k4"
    and b4: "0 \<le> k4" "k4 \<le> 3.4"
    using dEdx_proton_silicon_range [of "1.17284 - k3 * (0.01 * 1)" "0.01"] b3 by auto
  obtain loss me' where ret: "momentumLoss particles_example ?me 1 0.703704 False 2212 = (Inr loss, me')"
    and rate: "dEdx_m me' = (k1 + 2 * k2 + 2 * k3 + k4) / 6"
    using momentumLoss_rk4 [of particles_example ?me "0.703704" 2212 k1 1 k2 k3 k4]
    unfolding m c s E0 using k1 k2 k3 k4 by blast
  have r: "0 \<le> dEdx_m me'" "dEdx_m me' \<le> 3.4" unfolding rate using b1 b2 b3 b4 by simp_all
  define E where "E = 1.17284 - 0.01 * 1 * dEdx_m me'"
  have E: "1.1 \<le> E" unfolding E_def using r by simp
  have "0.938272 * 0.938272 < E * E"
  proof -
    have "1.1 * 1.1 \<le> E * E" using E by (intro mult_mono) simp_all
    then show ?thesis by simp
  qed
  then have pos: "0 < sqrt (E\<^sup>2 - 0.938272 * 0.938272)" by (simp add: power2_eq_square)
  have "loss = (if E \<le> 0.938272 then 0.703704 else 0.703704 - sqrt (E\<^sup>2 - 0.938272 * 0.938272))"
    unfolding E_def using momentumLoss_returns(2) [OF ret]
    by (simp only: Let_def m s E0)
  then have "loss < 0.703704" using E pos by simp
  then show ?thesis using ret by blast
qed

section \<open>Segment effects\<close>

text \<open>
  C6. A step whose material has an atomic number at or below the vacuum threshold
  \<open>10\<^sup>-\<^sup>3\<close>: one pass through the loop body of \<open>effects\<close> returns normally, the accumulated
  momentum loss is what it was (the step contributes zero) and the noise matrix is what it
  was, for every step length.
\<close>

theorem effects_step_vacuum:
  "Z (materialProperties_m (matStep_m s)) \<le> 1 / 10^3 \<longrightarrow>
     fst (effects_step pt mom pdg s (me, momLoss, noise)) = Inr ()
     \<and> fst (snd (snd (effects_step pt mom pdg s (me, momLoss, noise)))) = momLoss
     \<and> snd (snd (snd (effects_step pt mom pdg s (me, momLoss, noise)))) = noise"
  by (simp add: effects_step_def Let_def)

theorem effects_step_vacuum_witness:
  "Z (materialProperties_m (matStep_m (step_example vacuum_gap 5))) \<le> 1 / 10^3
   \<and> fst (effects_step particles_example 1 2212 (step_example vacuum_gap 5)
             (MaterialEffects_example, 0.25, Some (\<lambda>i. real i))) = Inr ()
   \<and> fst (snd (snd (effects_step particles_example 1 2212 (step_example vacuum_gap 5)
             (MaterialEffects_example, 0.25, Some (\<lambda>i. real i))))) = 0.25
   \<and> snd (snd (snd (effects_step particles_example 1 2212 (step_example vacuum_gap 5)
             (MaterialEffects_example, 0.25, Some (\<lambda>i. real i))))) = Some (\<lambda>i. real i)"
  using effects_step_vacuum [of "step_example vacuum_gap 5" particles_example 1 2212
          MaterialEffects_example "0.25" "Some (\<lambda>i. real i)"]
  by (simp add: step_example_def vacuum_gap_def)

text \<open>One pass through the loop body for a forward step through a material, without noise.\<close>

lemma effects_step_material:
  assumes len: "1 / 10^8 \<le> stepSize_ms (matStep_m s)"
      and mat: "1 / 10^3 < Z (materialProperties_m (matStep_m s))"
      and ml: "momentumLoss pt
                 (me\<lparr>stepSize_m := stepSize_ms (matStep_m s),
                     matDensity_m := density (materialProperties_m (matStep_m s)),
                     matZ_m := Z (materialProperties_m (matStep_m s)),
                     matA_m := A (materialProperties_m (matStep_m s)),
                     radiationLength_m := radiationLength (materialProperties_m (matStep_m s)),
                     mEE_m := mEE (materialProperties_m (matStep_m s))\<rparr>)
                 1 (mom - momLoss) False pdg = (Inr l, me2)"
  shows "effects_step pt mom pdg s (me, momLoss, None) = (Inr (), (me2, momLoss + l, None))"
proof -
  have a: "\<bar>stepSize_ms (matStep_m s)\<bar> = stepSize_ms (matStep_m s)"
    using len by simp
  show ?thesis
    using mat ml len by (simp add: effects_step_def Let_def a)
qed

text \<open>
  C4. When material effects are enabled and the interface is set, so that the steps of the
  range are processed, and the loop over them ends without an exception with the
  accumulated loss \<open>momLoss\<close>: \<open>effects\<close> throws the fatal exception if
  \<open>momLoss \<ge> mom\<close>, and otherwise returns exactly \<open>momLoss\<close>. There is no branch that returns
  a clamped value.
\<close>

theorem effects_fatal_when_stopped:
  assumes "\<not> noEffects_m me" and "materialInterface_m me \<noteq> None"
      and "steps_range steps materialsFXStart materialsFXStop = Some ss"
      and "effects_loop pt mom pdg ss (me, 0, noise) = (Inr (), (me', momLoss, noise'))"
  shows "effects pt me steps materialsFXStart materialsFXStop mom pdg noise =
           (if momLoss \<ge> mom
            then (Inl (Fatal ''MaterialEffects::effects ==> momLoss >= momentum, aborting extrapolation!''),
                  me', noise')
            else (Inr momLoss, me', noise'))"
  using assms by (simp add: effects_def)

theorem effects_fatal_when_stopped_witness:
  "(\<exists>loss me'. effects particles_example MaterialEffects_example
                    [step_example vacuum_gap 5, step_example silicon 0.01] 0 2 0.703704 2212 None
                  = (Inr loss, me', None) \<and> loss < 0.703704)
   \<and> fst (effects particles_example MaterialEffects_example [step_example vacuum_gap 5] 0 1 0 2212 None)
     = Inl (Fatal ''MaterialEffects::effects ==> momLoss >= momentum, aborting extrapolation!'')"
proof -
  define me1 where "me1 = MaterialEffects_example\<lparr>stepSize_m := 5, matDensity_m := 0, matZ_m := 0,
                            matA_m := 0, radiationLength_m := 0, mEE_m := 0\<rparr>"
  have h1: "\<not> noEffects_m MaterialEffects_example"
    and h2: "materialInterface_m MaterialEffects_example \<noteq> None"
    by (simp_all add: MaterialEffects_example_def MaterialEffects_new_def)
  have vac: "effects_step particles_example mom 2212 (step_example vacuum_gap 5)
               (MaterialEffects_example, 0, None) = (Inr (), (me1, 0, None))" for mom
    by (simp add: effects_step_def step_example_def vacuum_gap_def Let_def me1_def)
  obtain l me2 where ret:
      "momentumLoss particles_example (MaterialEffects_in silicon 0.01) 1 0.703704 False 2212 = (Inr l, me2)"
    and l: "l < 0.703704"
    using momentumLoss_rk4_proton_silicon by blast
  have load: "me1\<lparr>stepSize_m := stepSize_ms (matStep_m (step_example silicon 0.01)),
                  matDensity_m := density (materialProperties_m (matStep_m (step_example silicon 0.01))),
                  matZ_m := Z (materialProperties_m (matStep_m (step_example silicon 0.01))),
                  matA_m := A (materialProperties_m (matStep_m (step_example silicon 0.01))),
                  radiationLength_m := radiationLength (materialProperties_m (matStep_m (step_example silicon 0.01))),
                  mEE_m := mEE (materialProperties_m (matStep_m (step_example silicon 0.01)))\<rparr>
              = MaterialEffects_in silicon 0.01"
    by (simp add: me1_def MaterialEffects_in_def step_example_def)
  have si: "effects_step particles_example 0.703704 2212 (step_example silicon 0.01) (me1, 0, None)
              = (Inr (), (me2, 0 + l, None))"
  proof (rule effects_step_material)
    show "1 / 10^8 \<le> stepSize_ms (matStep_m (step_example silicon 0.01))"
      by (simp add: step_example_def)
    show "1 / 10^3 < Z (materialProperties_m (matStep_m (step_example silicon 0.01)))"
      by (simp add: step_example_def silicon_def)
    show "momentumLoss particles_example
            (me1\<lparr>stepSize_m := stepSize_ms (matStep_m (step_example silicon 0.01)),
                  matDensity_m := density (materialProperties_m (matStep_m (step_example silicon 0.01))),
                  matZ_m := Z (materialProperties_m (matStep_m (step_example silicon 0.01))),
                  matA_m := A (materialProperties_m (matStep_m (step_example silicon 0.01))),
                  radiationLength_m := radiationLength (materialProperties_m (matStep_m (step_example silicon 0.01))),
                  mEE_m := mEE (materialProperties_m (matStep_m (step_example silicon 0.01)))\<rparr>)
            1 (0.703704 - 0) False 2212 = (Inr l, me2)"
      unfolding load using ret by simp
  qed
  have r2: "steps_range [step_example vacuum_gap 5, step_example silicon 0.01] 0 2
              = Some [step_example vacuum_gap 5, step_example silicon 0.01]"
    by (simp add: steps_range_def)
  have loop2: "effects_loop particles_example 0.703704 2212
                 [step_example vacuum_gap 5, step_example silicon 0.01] (MaterialEffects_example, 0, None)
               = (Inr (), (me2, 0 + l, None))"
    by (simp only: effects_loop.simps vac si prod.case sum.case)
  have A: "\<exists>loss me'. effects particles_example MaterialEffects_example
                    [step_example vacuum_gap 5, step_example silicon 0.01] 0 2 0.703704 2212 None
                  = (Inr loss, me', None) \<and> loss < 0.703704"
    using effects_fatal_when_stopped [OF h1 h2 r2 loop2] l by simp
  have r1: "steps_range [step_example vacuum_gap 5] 0 1 = Some [step_example vacuum_gap 5]"
    by (simp add: steps_range_def)
  have loop1: "effects_loop particles_example 0 2212 [step_example vacuum_gap 5]
                 (MaterialEffects_example, 0, None) = (Inr (), (me1, 0, None))"
    by (simp add: vac)
  show ?thesis
    using A effects_fatal_when_stopped [OF h1 h2 r1 loop1] by simp
qed

section \<open>Noise\<close>

lemma fold_assign_other:
  "i \<notin> fst ` set xs \<Longrightarrow> fold (\<lambda>(j, v) n. n(j := v n)) xs n0 i = n0 i"
  by (induction xs arbitrary: n0) (auto simp: case_prod_beta)

lemma noiseAfter_outside_block:
  assumes "42 \<le> i \<or> i mod 7 = 6"
  shows "noiseAfter sigma2 step step2 a i = 0"
proof -
  have "\<not> (i < 42 \<and> i mod 7 \<noteq> 6)" using assms by auto
  then show ?thesis
    unfolding noiseAfter_def
    by (subst fold_assign_other) auto
qed

lemma noiseAfter_row_col_6:
  fixes r c :: nat
  shows "r < 7 \<Longrightarrow> c < 7 \<Longrightarrow> r = 6 \<or> c = 6 \<Longrightarrow> noiseAfter sigma2 step step2 a (r * 7 + c) = 0"
  by (rule noiseAfter_outside_block) auto

text \<open>
  C10. \<open>noiseCoulomb\<close> leaves the 13 entries of row 6 and column 6 of the noise matrix as
  they were. \<open>noiseBetheBloch\<close> and \<open>noiseBrems\<close> leave every entry other than
  \<open>6 * 7 + 6\<close> as it was.
\<close>

theorem noise_frame:
  "(\<forall>r c n'. r < 7 \<and> c < 7 \<and> (r = 6 \<or> c = 6)
       \<and> noiseCoulomb pt me noise direction momSquare betaSquare pdg = Inr n'
       \<longrightarrow> n' (r * 7 + c) = noise (r * 7 + c))
   \<and> (\<forall>i. i \<noteq> 6 * 7 + 6 \<longrightarrow>
          noiseBetheBloch pt me noise mom betaSquare gamma gammaSquare pdg i = noise i
          \<and> noiseBrems pt me noise momSquare betaSquare pdg i = noise i)"
proof (intro conjI allI impI)
  fix r c :: nat and n'
  assume a: "r < 7 \<and> c < 7 \<and> (r = 6 \<or> c = 6)
       \<and> noiseCoulomb pt me noise direction momSquare betaSquare pdg = Inr n'"
  then have z: "noiseAfter (noiseCoulomb_sigma2 pt me momSquare betaSquare pdg) \<bar>stepSize_m me\<bar>
             (\<bar>stepSize_m me\<bar> * \<bar>stepSize_m me\<bar>) direction (r * 7 + c) = 0"
    using noiseAfter_row_col_6 by blast
  from a have "n' = (\<lambda>i. if i < 7 * 7 then noise i
           + noiseAfter (noiseCoulomb_sigma2 pt me momSquare betaSquare pdg) \<bar>stepSize_m me\<bar>
             (\<bar>stepSize_m me\<bar> * \<bar>stepSize_m me\<bar>) direction i else noise i)"
    by (simp add: noiseCoulomb_def Let_def split: if_splits)
  then show "n' (r * 7 + c) = noise (r * 7 + c)" using z by simp
next
  fix i :: nat assume "i \<noteq> 6 * 7 + 6"
  then show "noiseBetheBloch pt me noise mom betaSquare gamma gammaSquare pdg i = noise i"
    by (simp add: noiseBetheBloch_def)
next
  fix i :: nat assume "i \<noteq> 6 * 7 + 6"
  then show "noiseBrems pt me noise momSquare betaSquare pdg i = noise i"
    by (simp add: noiseBrems_def Let_def)
qed

theorem noise_frame_witness:
  "(case noiseCoulomb particles_example (MaterialEffects_in silicon 1) (\<lambda>i. real i)
           (\<lambda>i. direction_example (3 + i)) 1 (1 / 4) 2212 of
      Inr n' \<Rightarrow> n' (6 * 7 + 0) = 42 \<and> n' (2 * 7 + 6) = 20
    | Inl e \<Rightarrow> False)
   \<and> noiseBetheBloch particles_example (MaterialEffects_in silicon 1) (\<lambda>i. real i)
        1 (1 / 4) 2 4 2212 (3 * 7 + 3) = 24
   \<and> noiseBrems particles_example (MaterialEffects_in silicon 1) (\<lambda>i. real i)
        1 (1 / 4) 11 (6 * 7 + 5) = 47"
proof -
  obtain n' where n': "noiseCoulomb particles_example (MaterialEffects_in silicon 1) (\<lambda>i. real i)
           (\<lambda>i. direction_example (3 + i)) 1 (1 / 4) 2212 = Inr n'"
    by (simp add: noiseCoulomb_def MaterialEffects_in_def MaterialEffects_example_def
          MaterialEffects_new_def Let_def)
  note nf = noise_frame [of particles_example "MaterialEffects_in silicon 1" "\<lambda>i. real i"
            "\<lambda>i. direction_example (3 + i)" 1 "1 / 4" 2212 1 2 4]
  note nf11 = noise_frame [of particles_example "MaterialEffects_in silicon 1" "\<lambda>i. real i"
            "\<lambda>i. direction_example (3 + i)" 1 "1 / 4" 11 1 2 4]
  have c1: "n' (6 * 7 + 0) = 42"
    using nf [THEN conjunct1, rule_format, of 6 0 n'] n' by simp
  have c2: "n' (2 * 7 + 6) = 20"
    using nf [THEN conjunct1, rule_format, of 2 6 n'] n' by simp
  have c3: "noiseBetheBloch particles_example (MaterialEffects_in silicon 1) (\<lambda>i. real i)
        1 (1 / 4) 2 4 2212 (3 * 7 + 3) = 24"
    using nf [THEN conjunct2, rule_format, of "3 * 7 + 3"] by simp
  have c4: "noiseBrems particles_example (MaterialEffects_in silicon 1) (\<lambda>i. real i)
        1 (1 / 4) 11 (6 * 7 + 5) = 47"
    using nf11 [THEN conjunct2, rule_format, of "6 * 7 + 5"] by simp
  show ?thesis using n' c1 c2 c3 c4 by simp
qed

text \<open>
  The entries of \<open>noiseAfter\<close>, as the 36 assignments leave them. Entry \<open>5 * 7 + 0\<close>, and
  with it the three entries copied from it, holds the product \<open>a 0 * a 1\<close>.
\<close>

lemma noiseAfter_entries:
  "noiseAfter sigma2 step step2 a 0 = sigma2 * step2 / 3 * (1 - a 0 * a 0)"
  "noiseAfter sigma2 step step2 a 1 = - sigma2 * step2 / 3 * a 0 * a 1"
  "noiseAfter sigma2 step step2 a 2 = - sigma2 * step2 / 3 * a 0 * a 2"
  "noiseAfter sigma2 step step2 a 3 = sigma2 * step * 0.5 * (1 - a 0 * a 0)"
  "noiseAfter sigma2 step step2 a 4 = - sigma2 * step * 0.5 * a 0 * a 1"
  "noiseAfter sigma2 step step2 a 5 = - sigma2 * step * 0.5 * a 0 * a 1"
  "noiseAfter sigma2 step step2 a 7 = - sigma2 * step2 / 3 * a 0 * a 1"
  "noiseAfter sigma2 step step2 a 8 = sigma2 * step2 / 3 * (1 - a 1 * a 1)"
  "noiseAfter sigma2 step step2 a 9 = - sigma2 * step2 / 3 * a 1 * a 2"
  "noiseAfter sigma2 step step2 a 10 = - sigma2 * step * 0.5 * a 0 * a 1"
  "noiseAfter sigma2 step step2 a 11 = sigma2 * step * 0.5 * (1 - a 1 * a 1)"
  "noiseAfter sigma2 step step2 a 12 = - sigma2 * step * 0.5 * a 1 * a 2"
  "noiseAfter sigma2 step step2 a 14 = - sigma2 * step2 / 3 * a 0 * a 2"
  "noiseAfter sigma2 step step2 a 15 = - sigma2 * step2 / 3 * a 1 * a 2"
  "noiseAfter sigma2 step step2 a 16 = sigma2 * step2 / 3 * (1 - a 2 * a 2)"
  "noiseAfter sigma2 step step2 a 17 = - sigma2 * step * 0.5 * a 0 * a 1"
  "noiseAfter sigma2 step step2 a 18 = - sigma2 * step * 0.5 * a 1 * a 2"
  "noiseAfter sigma2 step step2 a 19 = sigma2 * step * 0.5 * (1 - a 2 * a 2)"
  "noiseAfter sigma2 step step2 a 21 = sigma2 * step * 0.5 * (1 - a 0 * a 0)"
  "noiseAfter sigma2 step step2 a 22 = - sigma2 * step * 0.5 * a 0 * a 1"
  "noiseAfter sigma2 step step2 a 23 = - sigma2 * step * 0.5 * a 0 * a 1"
  "noiseAfter sigma2 step step2 a 24 = sigma2 * (1 - a 0 * a 0)"
  "noiseAfter sigma2 step step2 a 25 = - sigma2 * a 0 * a 1"
  "noiseAfter sigma2 step step2 a 26 = - sigma2 * a 0 * a 2"
  "noiseAfter sigma2 step step2 a 28 = - sigma2 * step * 0.5 * a 0 * a 1"
  "noiseAfter sigma2 step step2 a 29 = sigma2 * step * 0.5 * (1 - a 1 * a 1)"
  "noiseAfter sigma2 step step2 a 30 = - sigma2 * step * 0.5 * a 1 * a 2"
  "noiseAfter sigma2 step step2 a 31 = - sigma2 * a 0 * a 1"
  "noiseAfter sigma2 step step2 a 32 = sigma2 * (1 - a 1 * a 1)"
  "noiseAfter sigma2 step step2 a 33 = - sigma2 * a 1 * a 2"
  "noiseAfter sigma2 step step2 a 35 = - sigma2 * step * 0.5 * a 0 * a 1"
  "noiseAfter sigma2 step step2 a 36 = - sigma2 * step * 0.5 * a 1 * a 2"
  "noiseAfter sigma2 step step2 a 37 = sigma2 * step * 0.5 * (1 - a 2 * a 2)"
  "noiseAfter sigma2 step step2 a 38 = - sigma2 * a 0 * a 2"
  "noiseAfter sigma2 step step2 a 39 = - sigma2 * a 1 * a 2"
  "noiseAfter sigma2 step step2 a 40 = sigma2 * (1 - a 2 * a 2)"
  by (simp_all add: noiseAfter_def)

lemma less6_cases: "(i::nat) < 6 \<Longrightarrow> i = 0 \<or> i = 1 \<or> i = 2 \<or> i = 3 \<or> i = 4 \<or> i = 5"
  by arith

lemma less3_cases: "(i::nat) < 3 \<Longrightarrow> i = 0 \<or> i = 1 \<or> i = 2"
  by arith


lemma noiseAfter_symmetric:
  assumes "i < 6" "j < 6"
  shows "noiseAfter sigma2 step step2 a (i * 7 + j) = noiseAfter sigma2 step step2 a (j * 7 + i)"
proof -
  have i: "i = 0 \<or> i = 1 \<or> i = 2 \<or> i = 3 \<or> i = 4 \<or> i = 5" using assms(1) by (rule less6_cases)
  have j: "j = 0 \<or> j = 1 \<or> j = 2 \<or> j = 3 \<or> j = 4 \<or> j = 5" using assms(2) by (rule less6_cases)
  from i j show ?thesis
    by (elim disjE; simp add: noiseAfter_entries del: One_nat_def add_2_eq_Suc add_2_eq_Suc')
qed

lemma noiseAfter_cross_exchange:
  assumes "i < 3" "j < 3"
  shows "noiseAfter sigma2 step step2 a ((3 + j) * 7 + i) = noiseAfter sigma2 step step2 a ((3 + i) * 7 + j)"
proof -
  have i: "i = 0 \<or> i = 1 \<or> i = 2" using assms(1) by (rule less3_cases)
  have j: "j = 0 \<or> j = 1 \<or> j = 2" using assms(2) by (rule less3_cases)
  from i j show ?thesis
    by (elim disjE; simp add: noiseAfter_entries del: One_nat_def add_2_eq_Suc add_2_eq_Suc')
qed

lemma noiseCoulomb_quad_probe:
  assumes "mscModelCode_m me = 0 \<or> mscModelCode_m me = 1"
  shows "\<exists>N. noiseCoulomb pt me (\<lambda>i. 0) (\<lambda>i. direction_example (3 + i)) momSquare betaSquare pdg = Inr N
             \<and> quad_form6 N probe_vector
                 = - (16 / 9) * noiseCoulomb_sigma2 pt me momSquare betaSquare pdg * \<bar>stepSize_m me\<bar>"
  using assms
  by (simp add: noiseCoulomb_def Let_def quad_form6_def noiseAfter_entries probe_vector_def
        direction_example_def del: One_nat_def add_2_eq_Suc add_2_eq_Suc')

lemma sigma2_Highland:
  "0 < noiseCoulomb_sigma2 particles_example ((MaterialEffects_in silicon 9.37)\<lparr>mscModelCode_m := 1\<rparr>)
         (0.703704 * 0.703704) (9 / 25) 2212"
  by (simp add: noiseCoulomb_sigma2_def MaterialEffects_in_def silicon_def particles_example_def Let_def)

lemma GEANE_logs:
  "0 < ln (159 * (14::real) powr (- 1 / 3))" "0 < ln (287 * (14::real) powr (- 0.5))"
proof -
  have a: "(14::real) powr (- 1) \<le> 14 powr (- 1 / 3)" by (rule powr_mono) simp_all
  have b: "(14::real) powr (- 1) \<le> 14 powr (- 0.5)" by (rule powr_mono) simp_all
  have c: "(14::real) powr (- 1) = 1 / 14" by (simp add: powr_minus_divide)
  have "1 < 159 * (14::real) powr (- 1 / 3)" using a c by linarith
  then show "0 < ln (159 * (14::real) powr (- 1 / 3))" by (rule ln_gt_zero)
  have "1 < 287 * (14::real) powr (- 0.5)" using b c by linarith
  then show "0 < ln (287 * (14::real) powr (- 0.5))" by (rule ln_gt_zero)
qed

lemma sigma2_GEANE:
  "0 < noiseCoulomb_sigma2 particles_example ((MaterialEffects_in silicon 9.37)\<lparr>mscModelCode_m := 0\<rparr>)
         (0.703704 * 0.703704) (9 / 25) 2212"
proof -
  have "0 < ln (159 * (14::real) powr (- 1 / 3)) / ln (287 * (14::real) powr (- 0.5))"
    using GEANE_logs by (rule divide_pos_pos)
  then have "0 < 225 / 10^6 * 1 * 1 / (9 / 25 * (0.703704 * 0.703704)) * \<bar>9.37\<bar> / 9.37 * 14 / (14 + 1)
                 * (ln (159 * (14::real) powr (- 1 / 3)) / ln (287 * (14::real) powr (- 0.5)))"
    by (intro mult_pos_pos) simp_all
  then show ?thesis
    by (simp add: noiseCoulomb_sigma2_def MaterialEffects_in_def silicon_def particles_example_def Let_def)
qed

text \<open>
  C1. The claim is that the 6x6 block added by \<open>noiseCoulomb\<close> is symmetric and positive
  semi-definite for every unit direction and positive step length, in both models. The
  block is symmetric (\<open>noiseAfter_symmetric\<close>, \<open>noiseAfter_cross_exchange\<close>). It is not
  positive semi-definite: for a proton with \<open>\<beta>\<gamma> = 3/4\<close>, the unit direction \<open>(2/3, 1/3, 2/3)\<close>
  and a step of one radiation length of silicon into a zero noise matrix, the quadratic
  form of the block at \<open>probe_vector\<close> is negative, in the Highland model and in the GEANE
  model.
\<close>

theorem noiseCoulomb_block_not_psd:
  "(case noiseCoulomb particles_example ((MaterialEffects_in silicon 9.37)\<lparr>mscModelCode_m := 1\<rparr>)
           (\<lambda>i. 0) (\<lambda>i. direction_example (3 + i)) (0.703704 * 0.703704) (9 / 25) 2212 of
      Inr N \<Rightarrow> quad_form6 N probe_vector < 0 \<and> \<not> block6_psd N
    | Inl e \<Rightarrow> False)
   \<and> (case noiseCoulomb particles_example ((MaterialEffects_in silicon 9.37)\<lparr>mscModelCode_m := 0\<rparr>)
           (\<lambda>i. 0) (\<lambda>i. direction_example (3 + i)) (0.703704 * 0.703704) (9 / 25) 2212 of
      Inr N \<Rightarrow> quad_form6 N probe_vector < 0 \<and> \<not> block6_psd N
    | Inl e \<Rightarrow> False)"
proof -
  have neg: "quad_form6 N probe_vector < 0 \<Longrightarrow> \<not> block6_psd N" for N
    by (auto simp: block6_psd_def not_le intro: exI[of _ probe_vector])
  have s: "\<bar>stepSize_m ((MaterialEffects_in silicon 9.37)\<lparr>mscModelCode_m := m\<rparr>)\<bar> = 9.37" for m
    by (simp add: MaterialEffects_in_def)
  have q: "\<exists>N. noiseCoulomb particles_example ((MaterialEffects_in silicon 9.37)\<lparr>mscModelCode_m := m\<rparr>)
                (\<lambda>i. 0) (\<lambda>i. direction_example (3 + i)) (0.703704 * 0.703704) (9 / 25) 2212 = Inr N
              \<and> quad_form6 N probe_vector < 0"
    if m: "m = 0 \<or> m = 1"
      and pos: "0 < noiseCoulomb_sigma2 particles_example
                      ((MaterialEffects_in silicon 9.37)\<lparr>mscModelCode_m := m\<rparr>)
                      (0.703704 * 0.703704) (9 / 25) 2212" for m
  proof -
    obtain N where N: "noiseCoulomb particles_example ((MaterialEffects_in silicon 9.37)\<lparr>mscModelCode_m := m\<rparr>)
                (\<lambda>i. 0) (\<lambda>i. direction_example (3 + i)) (0.703704 * 0.703704) (9 / 25) 2212 = Inr N"
      and qf: "quad_form6 N probe_vector
                 = - (16 / 9) * noiseCoulomb_sigma2 particles_example
                     ((MaterialEffects_in silicon 9.37)\<lparr>mscModelCode_m := m\<rparr>)
                     (0.703704 * 0.703704) (9 / 25) 2212 * 9.37"
      using noiseCoulomb_quad_probe [of "(MaterialEffects_in silicon 9.37)\<lparr>mscModelCode_m := m\<rparr>"
              particles_example "0.703704 * 0.703704" "9 / 25" 2212] m
      unfolding s by auto
    have "quad_form6 N probe_vector < 0" unfolding qf using pos by simp
    then show ?thesis using N by blast
  qed
  obtain NH where NH: "noiseCoulomb particles_example ((MaterialEffects_in silicon 9.37)\<lparr>mscModelCode_m := 1\<rparr>)
           (\<lambda>i. 0) (\<lambda>i. direction_example (3 + i)) (0.703704 * 0.703704) (9 / 25) 2212 = Inr NH"
      and qH: "quad_form6 NH probe_vector < 0"
    using q [of 1] sigma2_Highland by auto
  obtain NG where NG: "noiseCoulomb particles_example ((MaterialEffects_in silicon 9.37)\<lparr>mscModelCode_m := 0\<rparr>)
           (\<lambda>i. 0) (\<lambda>i. direction_example (3 + i)) (0.703704 * 0.703704) (9 / 25) 2212 = Inr NG"
      and qG: "quad_form6 NG probe_vector < 0"
    using q [of 0] sigma2_GEANE by auto
  show ?thesis
    unfolding NH NG using qH qG neg by simp
qed

section \<open>Energy-loss straggling\<close>

subsection \<open>The branches of \<^verbatim>\<open>noiseBetheBloch\<close>\<close>

text \<open>
  The energy variance \<open>sigma2E\<close> is the value of the branch the call runs on, and every
  branch is selected by the conditions the source tests. \<open>zeta\<close> and the Urban variance are
  proportional to the step length.
\<close>

lemmas noiseBetheBloch_locals =
  noiseBetheBloch_I_def noiseBetheBloch_f2_def noiseBetheBloch_f1_def noiseBetheBloch_e2_def
  noiseBetheBloch_e1_def noiseBetheBloch_mbbgg2_def noiseBetheBloch_Sigma1_def
  noiseBetheBloch_Sigma2_def noiseBetheBloch_Sigma3_def noiseBetheBloch_Nc_def

lemma sigma2E_branches:
  "noiseBetheBloch_sigma2E pt me betaSquare gamma gammaSquare pdg =
     (case noiseBetheBloch_branch pt me betaSquare gamma gammaSquare pdg of
        Vavilov \<Rightarrow> noiseBetheBloch_zeta pt me betaSquare pdg
                     * noiseBetheBloch_Emax pt betaSquare gamma gammaSquare pdg
                     * (1 - betaSquare / 2)
      | Urban \<Rightarrow> noiseBetheBloch_Urban pt me betaSquare gamma gammaSquare pdg
      | _ \<Rightarrow> (let sigmaalpha = noiseBetheBloch_sigmaalpha (noiseBetheBloch_RLAMAX
                                   (noiseBetheBloch_RLAMED pt me betaSquare gamma gammaSquare pdg));
                   zeta = noiseBetheBloch_zeta pt me betaSquare pdg
               in sigmaalpha * sigmaalpha * zeta * zeta))
     * (1 / 10^18)"
  unfolding noiseBetheBloch_sigma2E_def noiseBetheBloch_branch_def noiseBetheBloch_Urban_def
    noiseBetheBloch_sigmaalpha_def noiseBetheBloch_RLAMAX_def noiseBetheBloch_RLAMED_def
    noiseBetheBloch_locals Let_def
  by simp

lemma branch_Vavilov_iff:
  "noiseBetheBloch_branch pt me betaSquare gamma gammaSquare pdg = Vavilov
     \<longleftrightarrow> noiseBetheBloch_zeta pt me betaSquare pdg
           / noiseBetheBloch_Emax pt betaSquare gamma gammaSquare pdg > 0.01"
  by (simp add: noiseBetheBloch_branch_def Let_def)


lemma branch_Landau_polynomial_iff:
  "noiseBetheBloch_branch pt me betaSquare gamma gammaSquare pdg = Landau_polynomial
     \<longleftrightarrow> noiseBetheBloch_zeta pt me betaSquare pdg
           / noiseBetheBloch_Emax pt betaSquare gamma gammaSquare pdg \<le> 0.01
         \<and> noiseBetheBloch_Nc pt me betaSquare gamma gammaSquare pdg > 50
         \<and> noiseBetheBloch_RLAMAX (noiseBetheBloch_RLAMED pt me betaSquare gamma gammaSquare pdg) \<le> 1010"
  by (simp add: noiseBetheBloch_branch_def Let_def not_less)

lemma branch_Landau_linear_iff:
  "noiseBetheBloch_branch pt me betaSquare gamma gammaSquare pdg = Landau_linear
     \<longleftrightarrow> noiseBetheBloch_zeta pt me betaSquare pdg
           / noiseBetheBloch_Emax pt betaSquare gamma gammaSquare pdg \<le> 0.01
         \<and> noiseBetheBloch_Nc pt me betaSquare gamma gammaSquare pdg > 50
         \<and> noiseBetheBloch_RLAMAX (noiseBetheBloch_RLAMED pt me betaSquare gamma gammaSquare pdg) > 1010"
  by (simp add: noiseBetheBloch_branch_def Let_def not_less not_le)

lemma zeta_scale:
  "noiseBetheBloch_zeta pt (me\<lparr>stepSize_m := s\<rparr>) betaSquare pdg
     = noiseBetheBloch_zeta pt (me\<lparr>stepSize_m := 1\<rparr>) betaSquare pdg * \<bar>s\<bar>"
  by (simp add: noiseBetheBloch_zeta_def Let_def)


subsection \<open>The width of the truncated Landau distribution\<close>

text \<open>
  \<open>RLAMAX\<close> grows with \<open>RLAMED\<close>, and for \<open>RLAMED \<ge> 2\<close> its derivative is at most
  \<open>0.82 * RLAMAX\<close>.
\<close>

lemma RLAMAX_strict_mono:
  assumes "0 \<le> a" "a < b"
  shows "noiseBetheBloch_RLAMAX a < noiseBetheBloch_RLAMAX b"
proof -
  have e: "exp (0.94753 + 0.74442 * a) \<le> exp (0.94753 + 0.74442 * b)"
    using assms by simp
  have "(0.67794 + 0.052382 * a) * exp (0.94753 + 0.74442 * a)
          \<le> (0.67794 + 0.052382 * b) * exp (0.94753 + 0.74442 * b)"
    using assms e by (intro mult_mono) simp_all
  moreover have "1.1934 * a < 1.1934 * b" using assms by simp
  ultimately show ?thesis unfolding noiseBetheBloch_RLAMAX_def by linarith
qed


lemma RLAMAX_deriv:
  "(noiseBetheBloch_RLAMAX has_real_derivative
      (1.1934 + 0.052382 * exp (0.94753 + 0.74442 * R)
        + (0.67794 + 0.052382 * R) * (0.74442 * exp (0.94753 + 0.74442 * R)))) (at R)"
  unfolding noiseBetheBloch_RLAMAX_def
  apply (rule derivative_eq_intros refl | simp)+
  done









lemma exp_one_ge_two: "2 \<le> exp (1 :: real)"
  using exp_ge_add_one_self [of "1 :: real"] by simp

lemma exp_quarter_le: "exp (1 / 4 :: real) \<le> 21 / 16"
  using exp_bound [of "1 / 4"] by (simp add: power2_eq_square)

lemma exp_seven_ge: "128 \<le> exp (7 :: real)"
proof -
  have "(128 :: real) = 2 ^ 7" by simp
  also have "\<dots> \<le> exp 1 ^ 7" by (intro power_mono exp_one_ge_two) simp
  also have "\<dots> = exp (7 :: real)" using exp_of_nat_mult [of 7 "1 :: real"] by simp
  finally show ?thesis .
qed

lemma exp_three_sixteenths_le: "exp (3 / 16 :: real) \<le> 1.2097"
proof -
  have t: "exp (1 / 32 :: real) \<le> 1057 / 1024"
    using exp_bound [of "1 / 32"] by (simp add: power2_eq_square)
  have "exp (3 / 16 :: real) = exp (1 / 32) ^ 6"
    using exp_of_nat_mult [of 6 "1 / 32 :: real"] by simp
  also have "\<dots> \<le> (1057 / 1024) ^ 6" using t by (intro power_mono) simp_all
  also have "\<dots> \<le> 1.2097" by (simp add: power_divide)
  finally show ?thesis .
qed

lemma exp_step_lower: "1 / 7700 \<le> exp (- (141 / 16) :: real)"
proof -
  have "exp (141 / 16 :: real) = exp (3 / 16) ^ 47"
    using exp_of_nat_mult [of 47 "3 / 16 :: real"] by simp
  also have "\<dots> \<le> 1.2097 ^ 47" using exp_three_sixteenths_le by (intro power_mono) simp_all
  also have "\<dots> \<le> 7700" by (simp add: power_divide)
  finally have "exp (141 / 16 :: real) \<le> 7700" .
  then have "1 / 7700 \<le> 1 / exp (141 / 16 :: real)" by (intro divide_left_mono) simp_all
  then show ?thesis by (simp add: exp_minus field_simps)
qed







lemma RLAMAX_small:
  assumes "0 \<le> R" "R \<le> 7"
  shows "noiseBetheBloch_RLAMAX R \<le> 1010"
proof -
  have "exp (25 / 4 :: real) = exp (1 / 4) ^ 25"
    using exp_of_nat_mult [of 25 "1 / 4 :: real"] by simp
  also have "\<dots> \<le> (21 / 16) ^ 25" by (intro power_mono exp_quarter_le) simp
  also have "\<dots> \<le> (900 :: real)" by (simp add: power_divide)
  finally have e: "exp (25 / 4 :: real) \<le> 900" .
  have "exp (0.94753 + 0.74442 * R) \<le> exp (25 / 4 :: real)" using assms(2) by simp
  then have E: "exp (0.94753 + 0.74442 * R) \<le> 900" using e by (rule order_trans)
  have "(0.67794 + 0.052382 * R) * exp (0.94753 + 0.74442 * R) \<le> 1.05 * 900"
    using assms E by (intro mult_mono) simp_all
  then show ?thesis unfolding noiseBetheBloch_RLAMAX_def using assms(2) by simp
qed

lemma RLAMAX_switch:
  "\<exists>R. 7 \<le> R \<and> R \<le> 8 \<and> noiseBetheBloch_RLAMAX R = 1010"
proof -
  have lo: "noiseBetheBloch_RLAMAX 7 \<le> 1010" by (rule RLAMAX_small) simp_all
  have t: "(145 / 128 :: real) \<le> exp (1 / 8)"
    using exp_lower_Taylor_quadratic [of "1 / 8 :: real"] by (simp add: power2_eq_square)
  have "(952 :: real) \<le> (145 / 128) ^ 55" by (simp add: power_divide)
  also have "\<dots> \<le> exp (1 / 8) ^ 55" using t by (intro power_mono) simp_all
  also have "\<dots> = exp (55 / 8 :: real)"
    using exp_of_nat_mult [of 55 "1 / 8 :: real"] by simp
  also have "\<dots> \<le> exp (0.94753 + 0.74442 * 8)" by simp
  finally have E: "952 \<le> exp (0.94753 + 0.74442 * 8 :: real)" .
  have "(0.67794 + 0.052382 * 8) * 952 \<le> (0.67794 + 0.052382 * 8) * exp (0.94753 + 0.74442 * 8 :: real)"
    using E by (intro mult_left_mono) simp_all
  then have hi: "1010 \<le> noiseBetheBloch_RLAMAX 8"
    unfolding noiseBetheBloch_RLAMAX_def by simp
  have "\<exists>R\<ge>7. R \<le> 8 \<and> noiseBetheBloch_RLAMAX R = 1010"
    using lo hi
    by (intro IVT') (simp_all add: continuous_at_imp_continuous_on DERIV_isCont [OF RLAMAX_deriv])
  then show ?thesis by blast
qed

lemma sigmaalpha_linear_ge:
  assumes "1010 < X"
  shows "31.811 \<le> noiseBetheBloch_sigmaalpha X"
  using assms by (simp add: noiseBetheBloch_sigmaalpha_def Let_def)

lemma sigmaalpha_switch:
  "0 < noiseBetheBloch_sigmaalpha 1010" "noiseBetheBloch_sigmaalpha 1010 \<le> 31.6733"
  by (simp_all add: noiseBetheBloch_sigmaalpha_def Let_def)

subsection \<open>Growth on each branch\<close>




text \<open>A call in the Vavilov-Gaussian regime stays in it at every longer step.\<close>

lemma vavilov_persists:
  assumes steps: "0 < s1" "s1 < s2"
      and regime: "noiseBetheBloch_branch pt (me\<lparr>stepSize_m := s1\<rparr>) betaSquare gamma gammaSquare pdg
                     = Vavilov"
  shows "noiseBetheBloch_branch pt (me\<lparr>stepSize_m := s2\<rparr>) betaSquare gamma gammaSquare pdg = Vavilov"
proof -
  define q where "q = noiseBetheBloch_zeta pt (me\<lparr>stepSize_m := 1\<rparr>) betaSquare pdg
                        / noiseBetheBloch_Emax pt betaSquare gamma gammaSquare pdg"
  have s2: "0 < s2" using steps by (rule less_trans)
  have ks: "noiseBetheBloch_zeta pt (me\<lparr>stepSize_m := s\<rparr>) betaSquare pdg
              / noiseBetheBloch_Emax pt betaSquare gamma gammaSquare pdg = q * s" if "0 < s" for s
    unfolding q_def zeta_scale [where s = s] using that by simp
  have k1: "0.01 < q * s1" using regime unfolding branch_Vavilov_iff ks [OF steps(1)] .
  have "(0::real) < 0.01" by simp
  then have "0 < q * s1" using k1 by (rule less_trans)
  then have "0 < q" using steps(1) by (rule zero_less_mult_pos2)
  with steps(2) have "q * s1 < q * s2" by (rule mult_strict_left_mono)
  with k1 have "0.01 < q * s2" by (rule less_trans)
  then show ?thesis unfolding branch_Vavilov_iff ks [OF s2] .
qed

subsection \<open>A material with \<open>Z = 1\<close>\<close>

text \<open>
  For \<open>Z = 1\<close> the Urban constants are \<open>I = e1 = 16\<close>, \<open>e2 = 10\<close>, \<open>f1 = 1\<close> and \<open>f2 = 0\<close>, so
  \<open>Sigma1 = dEdx_ * 1e9 * 0.6 / 16\<close>, \<open>Sigma2 = 0\<close> and \<open>0 \<le> Sigma3 \<le> dEdx_ * 1e9 * 0.4 / 16\<close>.
\<close>

lemma ln_ge_one:
  fixes x :: real
  assumes "3 \<le> x"
  shows "1 \<le> ln x"
proof -
  have "exp 1 \<le> x" using exp_le assms by (rule order_trans)
  moreover have "0 < x" using assms by simp
  ultimately show ?thesis by (simp only: ln_ge_iff)
qed

lemma hydrogen_locals:
  assumes "matZ_m me = 1"
  shows "noiseBetheBloch_I me = 16" "noiseBetheBloch_f2 me = 0" "noiseBetheBloch_f1 me = 1"
        "noiseBetheBloch_e2 me = 10" "noiseBetheBloch_e1 me = 16"
  using assms by (simp_all add: noiseBetheBloch_locals)

lemma hydrogen_Sigma1:
  assumes Z: "matZ_m me = 1" and beta: "betaSquare < 1"
      and mb: "48 \<le> noiseBetheBloch_mbbgg2 pt betaSquare gammaSquare pdg"
  shows "noiseBetheBloch_Sigma1 pt me betaSquare gammaSquare pdg = dEdx_m me * 37500000"
proof -
  define L where "L = ln (noiseBetheBloch_mbbgg2 pt betaSquare gammaSquare pdg / 16) - betaSquare"
  have "1 \<le> ln (noiseBetheBloch_mbbgg2 pt betaSquare gammaSquare pdg / 16)"
    using mb by (intro ln_ge_one) simp
  then have L: "L \<noteq> 0" using beta by (simp add: L_def)
  have "noiseBetheBloch_Sigma1 pt me betaSquare gammaSquare pdg = dEdx_m me * 10^9 * 1 / 16 * L / L * 0.6"
    unfolding noiseBetheBloch_Sigma1_def hydrogen_locals [OF Z] Let_def L_def ..
  also have "\<dots> = dEdx_m me * 37500000" using L by simp
  finally show ?thesis .
qed

lemma hydrogen_Sigma2:
  assumes Z: "matZ_m me = 1"
  shows "noiseBetheBloch_Sigma2 pt me betaSquare gammaSquare pdg = 0"
  unfolding noiseBetheBloch_Sigma2_def hydrogen_locals [OF Z] Let_def by simp

lemma hydrogen_Sigma3:
  assumes Z: "matZ_m me = 1" and loss: "0 \<le> dEdx_m me"
      and Em: "32 \<le> noiseBetheBloch_Emax pt betaSquare gamma gammaSquare pdg"
  shows "0 \<le> noiseBetheBloch_Sigma3 pt me betaSquare gamma gammaSquare pdg"
    and "noiseBetheBloch_Sigma3 pt me betaSquare gamma gammaSquare pdg \<le> dEdx_m me * 25000000"
proof -
  define E where "E = noiseBetheBloch_Emax pt betaSquare gamma gammaSquare pdg"
  define D where "D = ln ((E + 16) / 16)"
  have E: "32 \<le> E" using Em by (simp add: E_def)
  have D: "1 \<le> D" unfolding D_def using E by (intro ln_ge_one) simp
  have gen: "x * 10^9 * E / (16 * Y * D) * 0.4 = x * 25000000 * (E / Y / D)" for x Y :: real
    by (simp add: ac_simps)
  have eq: "noiseBetheBloch_Sigma3 pt me betaSquare gamma gammaSquare pdg
              = dEdx_m me * 25000000 * (E / (E + 16) / D)"
    unfolding noiseBetheBloch_Sigma3_def hydrogen_locals [OF Z] Let_def E_def [symmetric]
      D_def [symmetric] by (rule gen)
  define r where "r = E / (E + 16)"
  have r: "0 \<le> r" "r \<le> 1" using E by (simp_all add: r_def)
  have r0: "0 \<le> E / (E + 16) / D" using E D by simp
  have "r * 1 \<le> r * D" using D r(1) by (rule mult_left_mono)
  then have "r / D \<le> r" using D by (simp add: field_simps)
  then have r1: "E / (E + 16) / D \<le> 1" using r(2) unfolding r_def by simp
  show "0 \<le> noiseBetheBloch_Sigma3 pt me betaSquare gamma gammaSquare pdg"
    unfolding eq using loss r0 by (intro mult_nonneg_nonneg) simp_all
  have "dEdx_m me * 25000000 * (E / (E + 16) / D) \<le> dEdx_m me * 25000000 * 1"
    using loss r1 by (intro mult_left_mono) simp_all
  then show "noiseBetheBloch_Sigma3 pt me betaSquare gamma gammaSquare pdg \<le> dEdx_m me * 25000000"
    unfolding eq by simp
qed

lemma hydrogen_Nc:
  assumes Z: "matZ_m me = 1" and loss: "0 \<le> dEdx_m me" and beta: "betaSquare < 1"
      and mb: "48 \<le> noiseBetheBloch_mbbgg2 pt betaSquare gammaSquare pdg"
      and Em: "32 \<le> noiseBetheBloch_Emax pt betaSquare gamma gammaSquare pdg"
  shows "dEdx_m me * 37500000 * \<bar>stepSize_m me\<bar> \<le> noiseBetheBloch_Nc pt me betaSquare gamma gammaSquare pdg"
    and "noiseBetheBloch_Nc pt me betaSquare gamma gammaSquare pdg \<le> dEdx_m me * 62500000 * \<bar>stepSize_m me\<bar>"
proof -
  note S3 = hydrogen_Sigma3 [OF Z loss Em]
  have eq: "noiseBetheBloch_Nc pt me betaSquare gamma gammaSquare pdg
              = (dEdx_m me * 37500000 + noiseBetheBloch_Sigma3 pt me betaSquare gamma gammaSquare pdg)
                  * \<bar>stepSize_m me\<bar>"
    unfolding noiseBetheBloch_Nc_def hydrogen_Sigma1 [OF Z beta mb] hydrogen_Sigma2 [OF Z] by simp
  show "dEdx_m me * 37500000 * \<bar>stepSize_m me\<bar> \<le> noiseBetheBloch_Nc pt me betaSquare gamma gammaSquare pdg"
    unfolding eq using S3(1) by (intro mult_right_mono) simp_all
  have "(dEdx_m me * 37500000 + noiseBetheBloch_Sigma3 pt me betaSquare gamma gammaSquare pdg)
          * \<bar>stepSize_m me\<bar> \<le> (dEdx_m me * 62500000) * \<bar>stepSize_m me\<bar>"
    using S3(2) by (intro mult_right_mono) simp_all
  then show "noiseBetheBloch_Nc pt me betaSquare gamma gammaSquare pdg \<le> dEdx_m me * 62500000 * \<bar>stepSize_m me\<bar>"
    unfolding eq .
qed


subsection \<open>The electron and the proton in hydrogen gas\<close>

text \<open>
  The electron, for every stored loss rate from \<open>1.4e-5\<close> to \<open>2e-5\<close> GeV/cm: Urban model up
  to 0.04 cm, truncated Landau distribution with the width at its cap from 0.1 cm to 1 cm.
  The Urban variance at 0.04 cm is at least \<open>5376 eV\<^sup>2\<close>, the Landau variance at 0.1 cm at
  most \<open>4850 eV\<^sup>2\<close>, so the call at 0.1 cm adds less than the call at 0.04 cm.
\<close>

lemmas example_defs =
  particles_example_def MaterialEffects_in_def MaterialEffects_example_def MaterialEffects_new_def
  hydrogen_gas_def silicon_def hydrogen_with_loss_def
  electron_gamma_def electron_betaSquare_def electron_mom_def


lemma hydrogen_state:
  "matZ_m ((hydrogen_with_loss r)\<lparr>stepSize_m := s\<rparr>) = 1"
  "dEdx_m ((hydrogen_with_loss r)\<lparr>stepSize_m := s\<rparr>) = r"
  by (simp_all add: example_defs)





text \<open>
  The proton: \<open>kappa\<close> is \<open>6.1705e-5\<close> to \<open>6.1706e-5\<close> times the step length in cm; Urban model
  up to 1 cm for a stored loss rate up to \<open>8e-7\<close> GeV/cm, truncated Landau distribution with
  the polynomial width from 130 cm to 160 cm for a stored loss rate of at least \<open>1e-7\<close>
  GeV/cm. With the stored loss rate at 0 (here in silicon) the call never takes a Landau
  branch and the Urban variance is 0.
\<close>

lemma proton_kinematics:
  "48 \<le> noiseBetheBloch_mbbgg2 particles_example (9 / 25) (25 / 16) 2212"
  "32 \<le> noiseBetheBloch_Emax particles_example (9 / 25) (5 / 4) (25 / 16) 2212"
  by (simp_all add: noiseBetheBloch_mbbgg2_def noiseBetheBloch_Emax_def example_defs Let_def)

lemma proton_kappa:
  assumes "0 < s"
  shows "61705 / 10 ^ 9 * s \<le> noiseBetheBloch_zeta particles_example ((hydrogen_with_loss r)\<lparr>stepSize_m := s\<rparr>)
               (9 / 25) 2212
             / noiseBetheBloch_Emax particles_example (9 / 25) (5 / 4) (25 / 16) 2212"
    and "noiseBetheBloch_zeta particles_example ((hydrogen_with_loss r)\<lparr>stepSize_m := s\<rparr>)
               (9 / 25) 2212
             / noiseBetheBloch_Emax particles_example (9 / 25) (5 / 4) (25 / 16) 2212
          \<le> 61706 / 10 ^ 9 * s"
proof -
  define q where "q = noiseBetheBloch_zeta particles_example ((hydrogen_with_loss r)\<lparr>stepSize_m := 1\<rparr>)
               (9 / 25) 2212
             / noiseBetheBloch_Emax particles_example (9 / 25) (5 / 4) (25 / 16) 2212"
  have q: "61705 / 10 ^ 9 \<le> q" "q \<le> 61706 / 10 ^ 9"
    unfolding q_def
    by (simp_all add: noiseBetheBloch_zeta_def noiseBetheBloch_Emax_def example_defs Let_def)
  have eq: "noiseBetheBloch_zeta particles_example ((hydrogen_with_loss r)\<lparr>stepSize_m := s\<rparr>)
               (9 / 25) 2212
             / noiseBetheBloch_Emax particles_example (9 / 25) (5 / 4) (25 / 16) 2212 = q * s"
    unfolding q_def zeta_scale [where s = s] using assms by simp
  show "61705 / 10 ^ 9 * s \<le> noiseBetheBloch_zeta particles_example ((hydrogen_with_loss r)\<lparr>stepSize_m := s\<rparr>)
               (9 / 25) 2212
             / noiseBetheBloch_Emax particles_example (9 / 25) (5 / 4) (25 / 16) 2212"
    unfolding eq using q(1) assms by (intro mult_right_mono) simp_all
  show "noiseBetheBloch_zeta particles_example ((hydrogen_with_loss r)\<lparr>stepSize_m := s\<rparr>)
               (9 / 25) 2212
             / noiseBetheBloch_Emax particles_example (9 / 25) (5 / 4) (25 / 16) 2212
          \<le> 61706 / 10 ^ 9 * s"
    unfolding eq using q(2) assms by (intro mult_right_mono) simp_all
qed

lemma proton_Nc:
  assumes "0 \<le> r"
  shows "r * 37500000 * \<bar>s\<bar> \<le> noiseBetheBloch_Nc particles_example
       ((hydrogen_with_loss r)\<lparr>stepSize_m := s\<rparr>) (9 / 25) (5 / 4) (25 / 16) 2212"
    and "noiseBetheBloch_Nc particles_example
       ((hydrogen_with_loss r)\<lparr>stepSize_m := s\<rparr>) (9 / 25) (5 / 4) (25 / 16) 2212
     \<le> r * 62500000 * \<bar>s\<bar>"
  using assms hydrogen_Nc [of "(hydrogen_with_loss r)\<lparr>stepSize_m := s\<rparr>" "9 / 25" particles_example
          "25 / 16" 2212 "5 / 4"]
  by (simp_all add: hydrogen_state proton_kinematics)




text \<open>
  The loss rate that \<^verbatim>\<open>momentumLoss\<close> itself stores for this proton in hydrogen gas (the
  Bethe-Bloch rate at the energy \<open>1.17284\<close> GeV) lies between \<open>6.7e-7\<close> and \<open>8e-7\<close> GeV/cm: in
  the range of the lemmas on the proton above and of the drop at the change of the width
  formula below.
\<close>

lemma proton_hydrogen_log:
  "159 / 16 \<le> ln (153299673 / (5120 * sqrt (8815532470270948211881 / 8803543459840000000000)))"
  "ln (153299673 / (5120 * sqrt (8815532470270948211881 / 8803543459840000000000))) \<le> 23 / 2"
proof -
  define S :: real where "S = sqrt (8815532470270948211881 / 8803543459840000000000)"
  define X :: real where "X = 153299673 / (5120 * S)"
  have S1: "1 \<le> S" unfolding S_def by (rule real_sqrt_ge_one) simp
  have S2: "S \<le> 1.1" unfolding S_def by (rule real_le_lsqrt) (simp_all add: power2_eq_square)
  have D: "0 < 5120 * S" using S1 by simp
  have "25000 * (5120 * S) \<le> 153299673" using S2 by simp
  then have XL: "25000 \<le> X" unfolding X_def using D by (simp only: pos_le_divide_eq)
  have "153299673 \<le> 30000 * (5120 * S)" using S1 by simp
  then have XU: "X \<le> 30000" unfolding X_def using D by (simp only: pos_divide_le_eq)
  have X0: "0 < X" using XL by simp
  have "exp (159 / 16 :: real) = exp (3 / 16) ^ 53"
    using exp_of_nat_mult [of 53 "3 / 16 :: real"] by simp
  also have "\<dots> \<le> 1.2097 ^ 53" using exp_three_sixteenths_le by (intro power_mono) simp_all
  also have "\<dots> \<le> 25000" by (simp add: power_divide)
  also note XL
  finally have "159 / 16 \<le> ln X" using X0 by (simp only: ln_ge_iff)
  then show "159 / 16 \<le> ln (153299673 / (5120 * sqrt (8815532470270948211881 / 8803543459840000000000)))"
    unfolding X_def S_def .
  have t: "(13 / 8 :: real) \<le> exp (1 / 2)"
    using exp_lower_Taylor_quadratic [of "1 / 2 :: real"] by (simp add: power2_eq_square)
  note XU
  also have "(30000 :: real) \<le> (13 / 8) ^ 23" by (simp add: power_divide)
  also have "\<dots> \<le> exp (1 / 2) ^ 23" using t by (intro power_mono) simp_all
  also have "\<dots> = exp (23 / 2 :: real)" using exp_of_nat_mult [of 23 "1 / 2 :: real"] by simp
  finally have "ln X \<le> ln (exp (23 / 2))" using X0 by (subst ln_le_cancel_iff) simp_all
  then show "ln (153299673 / (5120 * sqrt (8815532470270948211881 / 8803543459840000000000))) \<le> 23 / 2"
    unfolding X_def S_def by simp
qed

lemma dEdx_proton_hydrogen_case:
  "(case dEdx particles_example (MaterialEffects_in hydrogen_gas len) 1.17284 0.938272 1 2212 of
      Inr r \<Rightarrow> 0.00000067 \<le> r \<and> r \<le> 0.0000008
    | Inl e \<Rightarrow> False)"
  using proton_hydrogen_log
  by (simp add: dEdx_def dEdxBetheBloch_def dEdxBrems_def bind_exn_def Let_def
        betaGammaMin_def particles_example_def MaterialEffects_in_def hydrogen_gas_def
        MaterialEffects_example_def MaterialEffects_new_def)

lemma dEdx_proton_hydrogen:
  "\<exists>r. dEdx particles_example (MaterialEffects_in hydrogen_gas len) 1.17284 0.938272 1 2212 = Inr r
           \<and> 0.00000067 \<le> r \<and> r \<le> 0.0000008"
  using dEdx_proton_hydrogen_case [of len]
  by (cases "dEdx particles_example (MaterialEffects_in hydrogen_gas len) 1.17284 0.938272 1 2212") simp_all

lemma momentumLoss_proton_hydrogen:
  "\<exists>loss me'. momentumLoss particles_example (MaterialEffects_in hydrogen_gas len) 1 0.703704 True 2212
                    = (Inr loss, me')
                 \<and> 0.00000067 \<le> dEdx_m me' \<and> dEdx_m me' \<le> 0.0000008"
proof -
  obtain r where r: "dEdx particles_example (MaterialEffects_in hydrogen_gas len) 1.17284 0.938272 1 2212 = Inr r"
    and b: "0.00000067 \<le> r" "r \<le> 0.0000008"
    using dEdx_proton_hydrogen [of len] by blast
  have m: "getParticleMass particles_example 2212 = 0.938272"
    and c: "getParticleCharge particles_example 2212 = 1"
    by (simp_all add: particles_example_def)
  have "dEdx particles_example (MaterialEffects_in hydrogen_gas len)
          (sqrt (0.703704\<^sup>2 + (getParticleMass particles_example 2212)\<^sup>2))
          (getParticleMass particles_example 2212) (getParticleCharge particles_example 2212) 2212 = Inr r"
    unfolding proton_energy unfolding m c by (rule r)
  from momentumLoss_linear [OF this, of 1] b show ?thesis by blast
qed

subsection \<open>Step length and straggling\<close>


text \<open>
  The amount also drops inside the truncated Landau regime, where the formula for the width
  changes: for the proton in hydrogen gas, with any stored loss rate of at least \<open>6.7e-7\<close>
  GeV/cm, there are two step lengths of at least 2 cm, the shorter one on the linear formula
  and the longer one on the polynomial, such that the longer step adds less.
\<close>

lemma landau_switch_drop:
  assumes r: "0.00000067 \<le> r"
  shows "\<exists>s1 s2. 2 \<le> s1 \<and> s1 < s2
     \<and> noiseBetheBloch_branch particles_example ((hydrogen_with_loss r)\<lparr>stepSize_m := s1\<rparr>)
           (9 / 25) (5 / 4) (25 / 16) 2212 = Landau_linear
     \<and> noiseBetheBloch_branch particles_example ((hydrogen_with_loss r)\<lparr>stepSize_m := s2\<rparr>)
           (9 / 25) (5 / 4) (25 / 16) 2212 = Landau_polynomial
     \<and> noiseBetheBloch_increment particles_example ((hydrogen_with_loss r)\<lparr>stepSize_m := s2\<rparr>)
           0.703704 (9 / 25) (5 / 4) (25 / 16) 2212
         < noiseBetheBloch_increment particles_example ((hydrogen_with_loss r)\<lparr>stepSize_m := s1\<rparr>)
           0.703704 (9 / 25) (5 / 4) (25 / 16) 2212"
proof -
  obtain R where R: "7 \<le> R" "R \<le> 8" "noiseBetheBloch_RLAMAX R = 1010"
    using RLAMAX_switch by blast
  define z1 where "z1 = noiseBetheBloch_zeta particles_example ((hydrogen_with_loss r)\<lparr>stepSize_m := 1\<rparr>)
                          (9 / 25) 2212"
  define Em where "Em = noiseBetheBloch_Emax particles_example (9 / 25) (5 / 4) (25 / 16) 2212"
  define q where "q = z1 / Em"
  define c :: real where "c = - 0.422784 - 9 / 25"
  define s2 where "s2 = exp (c - R) / q"
  define s1 where "s1 = exp (c - R - 1 / 250) / q"
  define K where "K = (\<lambda>s. noiseBetheBloch_zeta particles_example ((hydrogen_with_loss r)\<lparr>stepSize_m := s\<rparr>)
                               (9 / 25) 2212 / Em)"
  define RL where "RL = (\<lambda>s. noiseBetheBloch_RLAMED particles_example
                     ((hydrogen_with_loss r)\<lparr>stepSize_m := s\<rparr>) (9 / 25) (5 / 4) (25 / 16) 2212)"
  have z1: "0 < z1"
    unfolding z1_def by (simp add: noiseBetheBloch_zeta_def example_defs Let_def)
  have q: "61705 / 10 ^ 9 \<le> q" "q \<le> 61706 / 10 ^ 9"
    using proton_kappa [of 1] by (simp_all add: q_def z1_def Em_def)
  have q0: "0 < q" using q(1) by simp
  have s1: "0 < s1" unfolding s1_def using q0 by simp
  have s2: "0 < s2" unfolding s2_def using q0 by simp
  have e12: "exp (c - R - 1 / 250) < exp (c - R)" by simp
  then have s12: "s1 < s2" unfolding s1_def s2_def using q0 by (rule divide_strict_right_mono)
  have zs: "noiseBetheBloch_zeta particles_example ((hydrogen_with_loss r)\<lparr>stepSize_m := s\<rparr>)
              (9 / 25) 2212 = z1 * s" if "0 < s" for s
    unfolding z1_def zeta_scale [where s = s] using that by simp
  have Ks: "K s = q * s" if "0 < s" for s
    unfolding K_def q_def zs [OF that] by simp
  have "q * s2 = exp (c - R)" unfolding s2_def using q0 by simp
  then have K2: "K s2 = exp (c - R)" using Ks [OF s2] by simp
  have "q * s1 = exp (c - R - 1 / 250)" unfolding s1_def using q0 by simp
  then have K1: "K s1 = exp (c - R - 1 / 250)" using Ks [OF s1] by simp
  have RL2: "RL s2 = R"
    unfolding RL_def noiseBetheBloch_RLAMED_def Em_def [symmetric] K2 [unfolded K_def]
    by (simp add: c_def)
  have RL1: "RL s1 = R + 1 / 250"
    unfolding RL_def noiseBetheBloch_RLAMED_def Em_def [symmetric] K1 [unfolded K_def]
    by (simp add: c_def)
  have "exp (c - R) \<le> exp (- 7)" using R(1) by (simp add: c_def)
  also have "\<dots> \<le> 1 / 128" using exp_seven_ge by (simp add: exp_minus field_simps)
  finally have k2: "K s2 \<le> 0.01" unfolding K2 by simp
  have "K s1 \<le> K s2" using e12 unfolding K1 K2 by (rule less_imp_le)
  then have k1: "K s1 \<le> 0.01" using k2 by (rule order_trans)
  have "1 / 7700 \<le> exp (- (141 / 16) :: real)" by (rule exp_step_lower)
  also have "\<dots> \<le> exp (c - R - 1 / 250)" using R(2) by (simp add: c_def)
  finally have "1 / 7700 / q \<le> s1" unfolding s1_def using q0 by (intro divide_right_mono) simp_all
  moreover have "1 / 7700 / (61706 / 10 ^ 9) \<le> 1 / 7700 / q"
    using q(2) q0 by (intro divide_left_mono) simp_all
  ultimately have s1lo: "2 \<le> s1" by simp
  have r0: "0 \<le> r" using r by simp
  have Nlo: "50 < r * 37500000 * \<bar>s\<bar>" if "2 \<le> s" for s
  proof -
    have "(50 :: real) < 0.00000067 * 2 * 37500000" by simp
    also have "\<dots> \<le> r * s * 37500000"
      using that r by (intro mult_right_mono mult_mono) simp_all
    also have "\<dots> = r * 37500000 * \<bar>s\<bar>" using that by simp
    finally show ?thesis .
  qed
  have "50 < r * 37500000 * \<bar>s1\<bar>" using s1lo by (rule Nlo)
  also have "\<dots> \<le> noiseBetheBloch_Nc particles_example
       ((hydrogen_with_loss r)\<lparr>stepSize_m := s1\<rparr>) (9 / 25) (5 / 4) (25 / 16) 2212"
    using r0 by (rule proton_Nc)
  finally have N1: "50 < noiseBetheBloch_Nc particles_example
       ((hydrogen_with_loss r)\<lparr>stepSize_m := s1\<rparr>) (9 / 25) (5 / 4) (25 / 16) 2212" .
  have "2 \<le> s2" using s1lo s12 by simp
  then have "50 < r * 37500000 * \<bar>s2\<bar>" by (rule Nlo)
  also have "\<dots> \<le> noiseBetheBloch_Nc particles_example
       ((hydrogen_with_loss r)\<lparr>stepSize_m := s2\<rparr>) (9 / 25) (5 / 4) (25 / 16) 2212"
    using r0 by (rule proton_Nc)
  finally have N2: "50 < noiseBetheBloch_Nc particles_example
       ((hydrogen_with_loss r)\<lparr>stepSize_m := s2\<rparr>) (9 / 25) (5 / 4) (25 / 16) 2212" .
  have "0 \<le> R" using R(1) by simp
  then have "noiseBetheBloch_RLAMAX R < noiseBetheBloch_RLAMAX (R + 1 / 250)"
    by (rule RLAMAX_strict_mono) simp
  then have X1: "1010 < noiseBetheBloch_RLAMAX (RL s1)" unfolding RL1 R(3) .
  have X2: "noiseBetheBloch_RLAMAX (RL s2) \<le> 1010" unfolding RL2 R(3) by simp
  have b1: "noiseBetheBloch_branch particles_example ((hydrogen_with_loss r)\<lparr>stepSize_m := s1\<rparr>)
           (9 / 25) (5 / 4) (25 / 16) 2212 = Landau_linear"
    unfolding branch_Landau_linear_iff using k1 N1 X1 unfolding K_def Em_def RL_def by blast
  have b2: "noiseBetheBloch_branch particles_example ((hydrogen_with_loss r)\<lparr>stepSize_m := s2\<rparr>)
           (9 / 25) (5 / 4) (25 / 16) 2212 = Landau_polynomial"
    unfolding branch_Landau_polynomial_iff using k2 N2 X2 unfolding K_def Em_def RL_def by blast
  define a where "a = noiseBetheBloch_sigmaalpha (noiseBetheBloch_RLAMAX (RL s2))"
  define b where "b = noiseBetheBloch_sigmaalpha (noiseBetheBloch_RLAMAX (RL s1))"
  have a: "0 < a" "a \<le> 31.6733" unfolding a_def RL2 R(3) by (rule sigmaalpha_switch)+
  have b: "31.811 \<le> b" unfolding b_def using X1 by (rule sigmaalpha_linear_ge)
  have "1 + (- (1 / 250)) \<le> exp (- (1 / 250) :: real)" by (rule exp_ge_add_one_self)
  then have "0.996 * exp (c - R) \<le> exp (- (1 / 250)) * exp (c - R)"
    by (intro mult_right_mono) simp_all
  also have "\<dots> = exp (c - R - 1 / 250)" by (simp add: exp_add [symmetric])
  finally have "0.996 * exp (c - R) / q \<le> exp (c - R - 1 / 250) / q"
    using q0 by (intro divide_right_mono) simp_all
  then have s1s2: "0.996 * s2 \<le> s1" unfolding s1_def s2_def by simp
  have "a * s2 \<le> 31.6733 * s2" using a(2) s2 by (intro mult_right_mono) simp_all
  also have "\<dots> < 31.811 * (0.996 * s2)" using s2 by simp
  also have "\<dots> \<le> 31.811 * s1" using s1s2 by (intro mult_left_mono) simp_all
  also have "\<dots> \<le> b * s1" using b s1 by (intro mult_right_mono) simp_all
  finally have lt: "a * s2 < b * s1" .
  have nn: "0 \<le> a * s2" using a(1) s2 by simp
  have "(a * s2)\<^sup>2 < (b * s1)\<^sup>2" by (rule power_strict_mono [OF lt nn]) simp
  moreover have "0 < z1\<^sup>2" using z1 by simp
  ultimately have "(a * s2)\<^sup>2 * z1\<^sup>2 < (b * s1)\<^sup>2 * z1\<^sup>2" by (rule mult_strict_right_mono)
  then have "a * a * (z1 * s2) * (z1 * s2) < b * b * (z1 * s1) * (z1 * s1)"
    by (simp add: power2_eq_square ac_simps)
  then have "a * a * (z1 * s2) * (z1 * s2) * (1 / 10 ^ 18) < b * b * (z1 * s1) * (z1 * s1) * (1 / 10 ^ 18)"
    by (rule mult_strict_right_mono) simp
  then have S: "noiseBetheBloch_sigma2E particles_example ((hydrogen_with_loss r)\<lparr>stepSize_m := s2\<rparr>)
                  (9 / 25) (5 / 4) (25 / 16) 2212
              < noiseBetheBloch_sigma2E particles_example ((hydrogen_with_loss r)\<lparr>stepSize_m := s1\<rparr>)
                  (9 / 25) (5 / 4) (25 / 16) 2212"
    unfolding sigma2E_branches b1 b2 branch.case Let_def zs [OF s1] zs [OF s2]
      a_def b_def RL_def .
  have "0 < real_of_int (getParticleCharge particles_example 2212)
             * real_of_int (getParticleCharge particles_example 2212) / (9 / 25) / 0.703704 ^ 4"
    by (simp add: particles_example_def)
  with S have "noiseBetheBloch_increment particles_example ((hydrogen_with_loss r)\<lparr>stepSize_m := s2\<rparr>)
           0.703704 (9 / 25) (5 / 4) (25 / 16) 2212
         < noiseBetheBloch_increment particles_example ((hydrogen_with_loss r)\<lparr>stepSize_m := s1\<rparr>)
           0.703704 (9 / 25) (5 / 4) (25 / 16) 2212"
    unfolding noiseBetheBloch_increment_def Let_def by (rule mult_strict_left_mono)
  with s1lo s12 b1 b2 show ?thesis by blast
qed



section \<open>Step limiter\<close>

text \<open>
  C7. The claim is stated for every call in which the accumulated relative momentum loss
  exceeds the cap. Three checks come before the cap: with material effects disabled the
  call returns at once and installs no limit.
\<close>

theorem stepper_cap_counterexample:
  "relMomLoss (world_example 0.02) > maxRelMomLoss
   \<and> limits (snd (snd (stepper particles_example silicon_everywhere straight_line StepLimits_model
        (MaterialEffects_example\<lparr>noEffects_m := True\<rparr>) (world_example 0.02) 1 2212 False)))
       = limits (world_example 0.02)
   \<and> limits (world_example 0.02)
       \<noteq> setLimit StepLimits_model stp_momLoss (Finite 0) (limits (world_example 0.02))"
  by (simp add: stepper_def world_example_def maxRelMomLoss_def Pmin_def
        MaterialEffects_example_def MaterialEffects_new_def StepLimits_model_def)

text \<open>
  C7, amended. For every call with a momentum of at least \<open>Pmin\<close>, material effects enabled
  and a material interface installed, in which the accumulated relative momentum loss
  exceeds the cap: the call returns normally; the limits are the old ones with one
  \<open>setLimit\<close> of the momentum-loss limit to zero; the object, the state vector, the state of
  the material interface and the log of calls to it are as before.
\<close>

theorem stepper_cap_reached:
  assumes "Pmin \<le> mom" and "\<not> noEffects_m me" and "materialInterface_m me \<noteq> None"
      and "relMomLoss w > maxRelMomLoss"
  shows "stepper pt ifc RKPropagate lops me w mom pdg varField
           = (Inr (), me, w\<lparr>limits := setLimit lops stp_momLoss (Finite 0) (limits w)\<rparr>)"
  using assms by (simp add: stepper_def)

theorem stepper_cap_reached_witness:
  "stepper particles_example silicon_everywhere straight_line StepLimits_model
        MaterialEffects_example (world_example 0.02) 1 2212 False
      = (Inr (), MaterialEffects_example,
         \<lparr> state7 = direction_example, relMomLoss = 0.02, currentMaterial = vacuum_gap,
           limits = (1, [(stp_momLoss, Finite 0), (stp_other 0, Finite 10)]),
           ifc_state = (), ifc_log = [] \<rparr>)"
proof -
  have h1: "Pmin \<le> 1" by (simp add: Pmin_def)
  have h2: "\<not> noEffects_m MaterialEffects_example"
    and h3: "materialInterface_m MaterialEffects_example \<noteq> None"
    by (simp_all add: MaterialEffects_example_def MaterialEffects_new_def)
  have h4: "relMomLoss (world_example 0.02) > maxRelMomLoss"
    by (simp add: world_example_def maxRelMomLoss_def)
  show ?thesis
    using stepper_cap_reached [OF h1 h2 h3 h4, of particles_example silicon_everywhere
            straight_line StepLimits_model 2212 False]
    by (simp add: world_example_def StepLimits_model_def)
qed

end
